theory Spec2Isabelle
  imports Complex_Main "HOL-Library.Monad_Syntax"
begin

section \<open>Exceptions and results\<close>

text \<open>
  The Python exceptions that the modelled code raises itself (\<open>raise ImportError(...)\<close>,
  \<open>raise ValueError(...)\<close>, a failing \<open>assert\<close>), the ones the interpreter raises on
  its behalf (calling \<open>None\<close>, reading an attribute of \<open>None\<close>, a missing key of a
  dictionary, an interrupt from the keyboard), the failure that the spec names for a negative wait (\<open>InvalidArgument\<close>)
  and the ones that come out of user code (\<open>UserError\<close>). A function that can raise returns
  \<open>py_exception + 'a\<close>, with \<open>Inl\<close> for the exception. A method that mutates its
  object returns the object as it is after the call next to the outcome, because a Python
  exception does not undo what the method did before it was raised.
\<close>

datatype py_exception =
    ImportError
  | ValueError
  | AssertionError
  | TypeError
  | AttributeError
  | KeyError
  | InvalidArgument
  | KeyboardInterrupt
  | UserError string

section \<open>The session (src/scamp/session.py)\<close>

subsection \<open>Data model\<close>

text \<open>
  \<open>class Session(Clock, Ensemble, Transcriber, SavesToJSON)\<close>: one object carrying
  the attributes of its three base classes and its own listener registry. The attributes
  of each base class are kept in a record of their own.
\<close>

datatype scamp_instrument = ScampInstrument string

text \<open>A clock argument: the session itself (\<open>self\<close>) or some other clock, by name.\<close>

datatype clock_ref = SelfClock | OtherClock string

text \<open>
  \<open>instrument_or_instruments\<close> of \<open>start_transcribing\<close>: a single instrument or a
  list of them.
\<close>

datatype instruments_arg = OneInstrument scamp_instrument | InstrumentList "scamp_instrument list"

record clock_attrs =
  tempo :: real
  suspension_depth :: int
  child_clocks :: "string list"

record ensemble_attrs =
  default_soundfont :: string
  default_audio_driver :: string
  default_midi_output_device :: string
  default_spelling_policy :: "string option"
  instruments :: "scamp_instrument list"

text \<open>
  A callback function handed to a registration method is an opaque function object for the
  registry; it is identified by a name.
\<close>

datatype callback = Callback string

text \<open>
  The objects kept in \<open>self._listeners\<close>: the MIDI input returned by
  \<open>start_midi_listener\<close> (it knows its port), the server and dispatcher of an OSC
  address (the dispatcher holds the mapped address patterns with their wrapped callbacks),
  and the keyboard listener made by \<open>pynput.keyboard.Listener\<close>.
\<close>

datatype midi_in = MidiIn (midi_port: int) (midi_callback: callback)

record osc_entry =
  osc_server :: "string \<times> int"
  osc_dispatcher :: "(string \<times> callback) list"

record keyboard_listener =
  kb_on_press :: "callback option"
  kb_on_release :: "callback option"
  kb_suppress :: bool

text \<open>
  \<open>self._listeners = {"midi": {}, "osc": {}}\<close>, with the key \<open>"keyboard"\<close> added
  once a keyboard listener is registered: an absent key is \<open>None\<close>. The key
  \<open>"mouse"\<close>, which is handled in the same way, is left out.
\<close>

record listener_registry =
  midi :: "int \<rightharpoonup> midi_in"
  osc :: "(string \<times> int) \<rightharpoonup> osc_entry"
  keyboard :: "keyboard_listener option"

text \<open>
  Calls that the session makes on its external collaborators (the MIDI layer, python-osc,
  pynput, the clock's thread pool), in the order in which they are made.
\<close>

datatype io_event =
    StartMidiListener int callback
  | ClosePort midi_in
  | OscServerCreated "string \<times> int"
  | ForkUnsynchronized "string \<times> int"
  | DispatcherMap "string \<times> int" string callback
  | KeyboardListenerStart keyboard_listener
  | KeyboardListenerStop keyboard_listener

record session =
  clock_state :: clock_attrs
  ensemble_state :: ensemble_attrs
  transcriptions :: "string list"
  listeners :: listener_registry
  io_log :: "io_event list"

text \<open>
  What the module sees of its surroundings: whether the optional packages were found
  (\<open>pythonosc is None\<close>, \<open>pynput is None\<close> in \<open>_dependencies\<close>), the list
  returned by \<open>get_available_midi_input_devices()\<close> (pairs of port number and device
  name), and \<open>get_port_number_of_midi_device(name, "input")\<close>, whose fuzzy matching of
  device names is not part of the modelled file and is taken as given.
\<close>

record environment =
  pythonosc_found :: bool
  pynput_found :: bool
  midi_input_devices :: "(int \<times> string) list"
  port_number_of_midi_device :: "string \<Rightarrow> int option"

text \<open>\<open>Session.__init__\<close> (lines 30 to 38).\<close>

definition new_session :: "real \<Rightarrow> string \<Rightarrow> string \<Rightarrow> string \<Rightarrow> session" where
  "new_session tempo0 soundfont audio_driver midi_output_device =
     \<lparr> clock_state = \<lparr> tempo = tempo0, suspension_depth = 0, child_clocks = [] \<rparr>,
       ensemble_state =
         \<lparr> default_soundfont = soundfont, default_audio_driver = audio_driver,
           default_midi_output_device = midi_output_device,
           default_spelling_policy = None, instruments = [] \<rparr>,
       transcriptions = [],
       listeners = \<lparr> midi = Map.empty, osc = Map.empty, keyboard = None \<rparr>,
       io_log = [] \<rparr>"

subsection \<open>MIDI listeners\<close>

text \<open>
  The argument \<open>port_number_or_device_name\<close>: a port number, a device name (a
  \<open>str\<close>), or \<open>None\<close>.
\<close>

datatype port_arg = PortNumber int | DeviceName string | PortNone

text \<open>
  The first statement of both MIDI methods (lines 82 to 83 and 101 to 102): a string is
  looked up among the devices, anything else is the port number itself.
\<close>

definition resolve_port :: "environment \<Rightarrow> port_arg \<Rightarrow> int option" where
  "resolve_port env port_number_or_device_name =
     (case port_number_or_device_name of
        DeviceName device_name \<Rightarrow> port_number_of_midi_device env device_name
      | PortNumber n \<Rightarrow> Some n
      | PortNone \<Rightarrow> None)"

text \<open>\<open>Session.remove_midi_listener\<close> (lines 94 to 106).\<close>

definition remove_midi_listener ::
  "environment \<Rightarrow> session \<Rightarrow> port_arg \<Rightarrow> (py_exception + unit) \<times> session" where
  "remove_midi_listener env self port_number_or_device_name =
     (case resolve_port env port_number_or_device_name of
        None \<Rightarrow> (Inl ValueError, self)
      | Some port_number \<Rightarrow>
          (case midi (listeners self) port_number of
             None \<Rightarrow> (Inl ValueError, self)
           | Some listener \<Rightarrow>
               (Inr (),
                self\<lparr> io_log := io_log self @ [ClosePort listener],
                      listeners := (listeners self)
                        \<lparr> midi := (midi (listeners self))(port_number := None) \<rparr> \<rparr>)))"

text \<open>
  \<open>Session.register_midi_listener\<close> (lines 73 to 92). \<open>start_midi_listener\<close> belongs
  to the MIDI layer: the call is recorded, and the object it returns is the listener of
  that port with that callback.
\<close>

definition register_midi_listener ::
  "environment \<Rightarrow> session \<Rightarrow> port_arg \<Rightarrow> callback \<Rightarrow> (py_exception + unit) \<times> session" where
  "register_midi_listener env self port_number_or_device_name callback_function =
     (case resolve_port env port_number_or_device_name of
        None \<Rightarrow> (Inl ValueError, self)
      | Some port_number \<Rightarrow>
          if port_number \<notin> set (map fst (midi_input_devices env))
          then (Inl ValueError, self)
          else
            (case (if port_number \<in> dom (midi (listeners self))
                   then remove_midi_listener env self (PortNumber port_number)
                   else (Inr (), self)) of
               (Inl e, self') \<Rightarrow> (Inl e, self')
             | (Inr _, self') \<Rightarrow>
                 (Inr (),
                  self'\<lparr> io_log := io_log self' @ [StartMidiListener port_number callback_function],
                         listeners := (listeners self')
                           \<lparr> midi := (midi (listeners self'))
                                (port_number \<mapsto> MidiIn port_number callback_function) \<rparr> \<rparr>)))"

text \<open>
  A sequence of calls of the two methods on one session. A call that raises leaves the
  session as the method left it, and the caller goes on with the next call.
\<close>

datatype midi_call = Register port_arg callback | Remove port_arg

fun midi_call_run :: "environment \<Rightarrow> midi_call \<Rightarrow> session \<Rightarrow> session" where
  "midi_call_run env (Register p cb) self = snd (register_midi_listener env self p cb)"
| "midi_call_run env (Remove p) self = snd (remove_midi_listener env self p)"

definition midi_calls_run :: "environment \<Rightarrow> midi_call list \<Rightarrow> session \<Rightarrow> session" where
  "midi_calls_run env calls self = fold (midi_call_run env) calls self"

text \<open>
  The number of MIDI inputs open on a port, read off the calls made on the MIDI layer:
  every \<open>start_midi_listener\<close> on the port opens one, every \<open>close_port\<close> of a
  listener of the port closes one.
\<close>

fun open_change :: "int \<Rightarrow> io_event \<Rightarrow> int" where
  "open_change p (StartMidiListener q _) = (if q = p then 1 else 0)"
| "open_change p (ClosePort l) = (if midi_port l = p then - 1 else 0)"
| "open_change p _ = 0"

definition open_midi_inputs :: "io_event list \<Rightarrow> int \<Rightarrow> int" where
  "open_midi_inputs events p = sum_list (map (open_change p) events)"

subsection \<open>OSC listeners\<close>

text \<open>
  \<open>Session.register_osc_listener\<close> (lines 108 to 136). The dispatcher's \<open>map\<close> adds
  the pattern with the wrapped callback to the handlers of the address.
\<close>

definition register_osc_listener ::
  "environment \<Rightarrow> session \<Rightarrow> int \<Rightarrow> string \<Rightarrow> callback \<Rightarrow> string \<Rightarrow>
   (py_exception + unit) \<times> session" where
  "register_osc_listener env self port osc_address_pattern callback_function ip_address =
     (if \<not> pythonosc_found env then (Inl ImportError, self)
      else
        let address = (ip_address, port);
            self1 =
              (if address \<notin> dom (osc (listeners self))
               then self\<lparr> listeners := (listeners self)
                            \<lparr> osc := (osc (listeners self))
                                 (address \<mapsto> \<lparr> osc_server = address, osc_dispatcher = [] \<rparr>) \<rparr>,
                          io_log := io_log self @ [OscServerCreated address, ForkUnsynchronized address] \<rparr>
               else self)
        in (case osc (listeners self1) address of
              None \<Rightarrow> (Inl KeyError, self1)
            | Some entry \<Rightarrow>
                (Inr (),
                 self1\<lparr> listeners := (listeners self1)
                          \<lparr> osc := (osc (listeners self1))
                               (address \<mapsto> entry\<lparr> osc_dispatcher :=
                                   osc_dispatcher entry @ [(osc_address_pattern, callback_function)] \<rparr>) \<rparr>,
                        io_log := io_log self1 @
                          [DispatcherMap address osc_address_pattern callback_function] \<rparr>)))"

subsection \<open>Keyboard listeners\<close>

text \<open>\<open>Session.remove_keyboard_listener\<close> (lines 199 to 205).\<close>

definition remove_keyboard_listener :: "session \<Rightarrow> session" where
  "remove_keyboard_listener self =
     (case keyboard (listeners self) of
        None \<Rightarrow> self
      | Some listener \<Rightarrow>
          self\<lparr> io_log := io_log self @ [KeyboardListenerStop listener],
                listeners := (listeners self)\<lparr> keyboard := None \<rparr> \<rparr>)"

text \<open>\<open>Session.register_keyboard_listener\<close> (lines 149 to 197).\<close>

definition register_keyboard_listener ::
  "environment \<Rightarrow> session \<Rightarrow> callback option \<Rightarrow> callback option \<Rightarrow> bool \<Rightarrow>
   (py_exception + unit) \<times> session" where
  "register_keyboard_listener env self on_press on_release suppress =
     (if \<not> pynput_found env then (Inl ImportError, self)
      else
        let self1 = remove_keyboard_listener self;
            listener = \<lparr> kb_on_press = on_press, kb_on_release = on_release,
                         kb_suppress = suppress \<rparr>
        in (Inr (),
            self1\<lparr> io_log := io_log self1 @ [KeyboardListenerStart listener],
                   listeners := (listeners self1)\<lparr> keyboard := Some listener \<rparr> \<rparr>))"

subsection \<open>The wrappers around listener callbacks\<close>

text \<open>
  Every wrapper works on three things: the session as a clock (\<open>self\<close>), the marker
  \<open>threading.current_thread().__clock__\<close> of the thread the listener calls it on, and,
  for the keyboard, the list \<open>keys_down\<close> shared by the two keyboard wrappers. The calls
  made on the clock and on the marker are logged in the order in which they happen.
\<close>

datatype call =
    RouseAndHold
  | ReleaseFromSuspension
  | SetThreadClock "clock_ref option"
  | UserAction string

record callback_state =
  session_clock :: clock_attrs
  thread_clock :: "clock_ref option"
  call_log :: "call list"
  keys_down :: "string option list"

text \<open>
  Modelled from the spec: \<open>Clock.rouse_and_hold\<close> and
  \<open>Clock.release_from_suspension\<close>, methods of the clock class that \<open>Session\<close>
  inherits, which is not among the source files. The spec gives a clock a suspension count
  (data model), calls the two methods paired primitives of which nested pairs are legal
  (component design), and speaks of the clock's suspension depth, which a pair leaves
  unchanged (testable properties): \<open>rouse_and_hold\<close> enters one level of holding and
  \<open>release_from_suspension\<close> leaves one. The depth is a Python integer.
\<close>

definition rouse_and_hold :: "callback_state \<Rightarrow> callback_state" where
  "rouse_and_hold st =
     st\<lparr> session_clock := (session_clock st)
            \<lparr> suspension_depth := suspension_depth (session_clock st) + 1 \<rparr>,
         call_log := call_log st @ [RouseAndHold] \<rparr>"

definition release_from_suspension :: "callback_state \<Rightarrow> callback_state" where
  "release_from_suspension st =
     st\<lparr> session_clock := (session_clock st)
            \<lparr> suspension_depth := suspension_depth (session_clock st) - 1 \<rparr>,
         call_log := call_log st @ [ReleaseFromSuspension] \<rparr>"

text \<open>The assignment \<open>threading.current_thread().__clock__ = value\<close>.\<close>

definition set_thread_clock :: "clock_ref option \<Rightarrow> callback_state \<Rightarrow> callback_state" where
  "set_thread_clock value st = st\<lparr> thread_clock := value, call_log := call_log st @ [SetThreadClock value] \<rparr>"

text \<open>
  A user callback is any Python function. What matters of it here: called with its
  arguments on a thread whose current-clock marker it can read, it makes calls of its own
  on the clock and the marker (it may rouse and release the clock itself, or do anything
  else, a \<open>UserAction\<close>), and it ends by returning (\<open>None\<close>) or by raising.
\<close>

type_synonym 'a user_function = "clock_ref option \<Rightarrow> 'a \<Rightarrow> call list \<times> py_exception option"

fun perform :: "call \<Rightarrow> callback_state \<Rightarrow> callback_state" where
  "perform RouseAndHold st = rouse_and_hold st"
| "perform ReleaseFromSuspension st = release_from_suspension st"
| "perform (SetThreadClock value) st = set_thread_clock value st"
| "perform (UserAction what) st = st\<lparr> call_log := call_log st @ [UserAction what] \<rparr>"

definition call_user ::
  "'a user_function \<Rightarrow> 'a \<Rightarrow> callback_state \<Rightarrow> (py_exception + unit) \<times> callback_state" where
  "call_user f args st =
     (case f (thread_clock st) args of
        (calls, outcome) \<Rightarrow>
          (case outcome of None \<Rightarrow> Inr () | Some e \<Rightarrow> Inl e, fold perform calls st))"

text \<open>
  The statement after the user callback in every wrapper: reached only when what comes
  before it has not raised.
\<close>

definition and_then ::
  "(py_exception + unit) \<times> callback_state \<Rightarrow> (callback_state \<Rightarrow> callback_state) \<Rightarrow>
   (py_exception + unit) \<times> callback_state" where
  "and_then result rest =
     (case result of
        (Inl e, st) \<Rightarrow> (Inl e, st)
      | (Inr _, st) \<Rightarrow> (Inr (), rest st))"

text \<open>\<open>callback_wrapper\<close> of \<open>register_osc_listener\<close> (lines 121 to 126).\<close>

definition callback_wrapper ::
  "'a user_function \<Rightarrow> 'a \<Rightarrow> callback_state \<Rightarrow> (py_exception + unit) \<times> callback_state" where
  "callback_wrapper callback_function args st =
     and_then (call_user callback_function args
                 (set_thread_clock (Some SelfClock) (rouse_and_hold st)))
       (\<lambda>st'. release_from_suspension (set_thread_clock None st'))"

text \<open>
  The argument pynput hands to a keyboard callback: \<open>None\<close>, a special key
  (\<open>pynput.keyboard.Key\<close>, with a name and a key code holding the number), or a
  \<open>KeyCode\<close> with a character and a number, either of which may be \<open>None\<close>.
\<close>

datatype key_argument = KeyNone | Key string "int option" | KeyCode "string option" "int option"

text \<open>\<open>Session._name_and_number_from_key\<close> (lines 207 to 220).\<close>

fun name_and_number_from_key :: "key_argument \<Rightarrow> string option \<times> int option" where
  "name_and_number_from_key KeyNone = (None, None)"
| "name_and_number_from_key (Key key_name vk) = (Some key_name, vk)"
| "name_and_number_from_key (KeyCode char vk) = (char, vk)"

text \<open>\<open>on_press_wrapper\<close> of \<open>register_keyboard_listener\<close> (lines 165 to 173).\<close>

definition on_press_wrapper ::
  "(string option \<times> int option) user_function \<Rightarrow> key_argument \<Rightarrow> callback_state \<Rightarrow>
   (py_exception + unit) \<times> callback_state" where
  "on_press_wrapper on_press key st =
     (let st2 = set_thread_clock (Some SelfClock) (rouse_and_hold st);
          (key_name, number) = name_and_number_from_key key
      in and_then
           (if key_name \<notin> set (keys_down st2)
            then call_user on_press (key_name, number)
                   (st2\<lparr> keys_down := keys_down st2 @ [key_name] \<rparr>)
            else (Inr (), st2))
           (\<lambda>st'. release_from_suspension (set_thread_clock None st')))"

text \<open>
  \<open>on_release_wrapper\<close> when \<open>on_release\<close> is given (lines 178 to 186);
  \<open>keys_down.remove(name)\<close> removes the first occurrence.
\<close>

definition on_release_wrapper ::
  "(string option \<times> int option) user_function \<Rightarrow> key_argument \<Rightarrow> callback_state \<Rightarrow>
   (py_exception + unit) \<times> callback_state" where
  "on_release_wrapper on_release key st =
     (let st2 = set_thread_clock (Some SelfClock) (rouse_and_hold st);
          (key_name, number) = name_and_number_from_key key;
          st3 = (if key_name \<in> set (keys_down st2)
                 then st2\<lparr> keys_down := remove1 key_name (keys_down st2) \<rparr>
                 else st2)
      in and_then (call_user on_release (key_name, number) st3)
           (\<lambda>st'. release_from_suspension (set_thread_clock None st')))"

text \<open>
  \<open>on_release_wrapper\<close> when \<open>on_release\<close> is \<open>None\<close> (lines 189 to 192): no user
  callback is called.
\<close>

definition on_release_wrapper_default ::
  "key_argument \<Rightarrow> callback_state \<Rightarrow> (py_exception + unit) \<times> callback_state" where
  "on_release_wrapper_default key st =
     (let (key_name, number) = name_and_number_from_key key
      in (Inr (),
          if key_name \<in> set (keys_down st)
          then st\<lparr> keys_down := remove1 key_name (keys_down st) \<rparr>
          else st))"

text \<open>
  The mouse wrappers of \<open>register_mouse_listener\<close>: \<open>on_move_wrapper\<close> (lines 257 to
  262), \<open>on_scroll_wrapper\<close> (lines 267 to 272) and \<open>on_click_wrapper\<close> (lines 280 to
  288). \<open>x_scale\<close> and \<open>y_scale\<close> are the variables of the enclosing method.
  \<open>on_click_wrapper\<close> exists when \<open>on_press\<close> or \<open>on_release\<close> is given; calling the
  one that is \<open>None\<close> is a \<open>TypeError\<close>.
\<close>

definition on_move_wrapper ::
  "(real \<times> real) user_function \<Rightarrow> real \<Rightarrow> real \<Rightarrow> real \<times> real \<Rightarrow> callback_state \<Rightarrow>
   (py_exception + unit) \<times> callback_state" where
  "on_move_wrapper on_move x_scale y_scale position st =
     (case position of
        (x, y) \<Rightarrow>
          and_then (call_user on_move (x * x_scale, y * y_scale)
                      (set_thread_clock (Some SelfClock) (rouse_and_hold st)))
            (\<lambda>st'. release_from_suspension (set_thread_clock None st')))"

definition on_scroll_wrapper ::
  "(real \<times> real \<times> int \<times> int) user_function \<Rightarrow> real \<Rightarrow> real \<Rightarrow> real \<times> real \<times> int \<times> int \<Rightarrow>
   callback_state \<Rightarrow> (py_exception + unit) \<times> callback_state" where
  "on_scroll_wrapper on_scroll x_scale y_scale event st =
     (case event of
        (x, y, dx, dy) \<Rightarrow>
          and_then (call_user on_scroll (x * x_scale, y * y_scale, dx, dy)
                      (set_thread_clock (Some SelfClock) (rouse_and_hold st)))
            (\<lambda>st'. release_from_suspension (set_thread_clock None st')))"

definition call_optional ::
  "'a user_function option \<Rightarrow> 'a \<Rightarrow> callback_state \<Rightarrow> (py_exception + unit) \<times> callback_state" where
  "call_optional f args st =
     (case f of None \<Rightarrow> (Inl TypeError, st) | Some g \<Rightarrow> call_user g args st)"

definition on_click_wrapper ::
  "(real \<times> real \<times> string) user_function option \<Rightarrow> (real \<times> real \<times> string) user_function option \<Rightarrow>
   real \<Rightarrow> real \<Rightarrow> real \<times> real \<times> string \<times> bool \<Rightarrow> callback_state \<Rightarrow>
   (py_exception + unit) \<times> callback_state" where
  "on_click_wrapper on_press on_release x_scale y_scale event st =
     (case event of
        (x, y, button_name, pressed) \<Rightarrow>
          (let st2 = set_thread_clock (Some SelfClock) (rouse_and_hold st)
           in and_then
                (if pressed
                 then call_optional on_press (x * x_scale, y * y_scale, button_name) st2
                 else call_optional on_release (x * x_scale, y * y_scale, button_name) st2)
                (\<lambda>st'. release_from_suspension (set_thread_clock None st'))))"

text \<open>
  The net number of levels of holding that a sequence of calls enters, and the marker
  that it leaves on a thread.
\<close>

fun depth_change :: "call list \<Rightarrow> int" where
  "depth_change [] = 0"
| "depth_change (RouseAndHold # calls) = depth_change calls + 1"
| "depth_change (ReleaseFromSuspension # calls) = depth_change calls - 1"
| "depth_change (_ # calls) = depth_change calls"

fun marker_after :: "call list \<Rightarrow> clock_ref option \<Rightarrow> clock_ref option" where
  "marker_after [] m = m"
| "marker_after (SetThreadClock value # calls) m = marker_after calls value"
| "marker_after (_ # calls) m = marker_after calls m"

subsection \<open>Transcription\<close>

text \<open>
  \<open>Session.start_transcribing\<close> (lines 307 to 328). \<open>Transcriber.start_transcribing\<close>
  is not part of the modelled file; it is the parameter \<open>super_start_transcribing\<close>,
  called with the instruments, the clock and the units, and whatever it returns is what
  the session's method returns.
\<close>

definition start_transcribing ::
  "(instruments_arg \<Rightarrow> clock_ref \<Rightarrow> string \<Rightarrow> 'r) \<Rightarrow> ensemble_attrs \<Rightarrow>
   instruments_arg option \<Rightarrow> clock_ref option \<Rightarrow> string \<Rightarrow> py_exception + 'r" where
  "start_transcribing super_start_transcribing self instrument_or_instruments clock units =
     (if instrument_or_instruments = None \<and> length (instruments self) = 0
      then Inl ValueError
      else Inr (super_start_transcribing
             (case instrument_or_instruments of
                None \<Rightarrow> InstrumentList (instruments self)
              | Some given \<Rightarrow> given)
             (case clock of None \<Rightarrow> SelfClock | Some given \<Rightarrow> given)
             units))"

subsection \<open>Sample surroundings and the consistency of the MIDI registry\<close>

text \<open>
  A machine with two MIDI input devices, on which neither python-osc nor pynput is
  installed.
\<close>

definition studio :: environment where
  "studio = \<lparr> pythonosc_found = False, pynput_found = False,
              midi_input_devices = [(0, ''Keystation''), (1, ''Launchpad'')],
              port_number_of_midi_device =
                (\<lambda>device_name. if device_name = ''Keystation'' then Some 0 else None) \<rparr>"

text \<open>
  The registry agrees with the MIDI layer: a listener registered under a port is a listener
  of that port, and the number of inputs open on a port is one when the port has an entry
  and zero when it has none.
\<close>

definition midi_registry_ok :: "session \<Rightarrow> bool" where
  "midi_registry_ok self \<longleftrightarrow>
     (\<forall>p listener. midi (listeners self) p = Some listener \<longrightarrow> midi_port listener = p) \<and>
     (\<forall>p. open_midi_inputs (io_log self) p = (if midi (listeners self) p = None then 0 else 1))"

subsection \<open>The bracket of a wrapper, and what is observed of a run\<close>

text \<open>
  The two statements with which every wrapper begins and the two with which it ends.
\<close>

definition bracket_open :: "call list" where
  "bracket_open = [RouseAndHold, SetThreadClock (Some SelfClock)]"

definition bracket_close :: "call list" where
  "bracket_close = [SetThreadClock None, ReleaseFromSuspension]"

text \<open>
  Of a run of a wrapper: how it ended, the suspension depth of the session clock after it
  and the thread's current-clock marker after it.
\<close>

definition outcome_depth_marker ::
  "(py_exception + unit) \<times> callback_state \<Rightarrow> (py_exception + unit) \<times> int \<times> clock_ref option" where
  "outcome_depth_marker result =
     (fst result, suspension_depth (session_clock (snd result)), thread_clock (snd result))"

text \<open>
  A session at rest seen from a listener thread; a callback that fails, one that returns,
  and one that rouses and releases the clock itself.
\<close>

definition idle :: callback_state where
  "idle = \<lparr> session_clock = \<lparr> tempo = 60, suspension_depth = 0, child_clocks = [] \<rparr>,
            thread_clock = None, call_log = [], keys_down = [] \<rparr>"

definition failing_callback :: "'a user_function" where
  "failing_callback marker args = ([UserAction ''started''], Some (UserError ''boom''))"

definition quiet_callback :: "'a user_function" where
  "quiet_callback marker args = ([UserAction ''played''], None)"

definition forking_callback :: "'a user_function" where
  "forking_callback marker args =
     ([RouseAndHold, UserAction ''forked'', ReleaseFromSuspension], None)"

subsection \<open>Serialisation\<close>

text \<open>The JSON values a session is written as; the object at the top is a dictionary.\<close>

datatype json =
    JNull
  | JNumber real
  | JString string
  | JArray "json list"
  | JObject "(string \<times> json) list"

type_synonym json_object = "string \<rightharpoonup> json"

text \<open>
  Modelled from the spec: \<open>Ensemble._to_json\<close>, a method of the ensemble class that
  \<open>Session\<close> inherits, which is not among the source files. The spec has the session
  serialise the ensemble configuration: the method writes what the ensemble part of the
  object holds, in a way (\<open>configuration\<close>) that is left open.
\<close>

definition ensemble_to_json :: "(ensemble_attrs \<Rightarrow> json_object) \<Rightarrow> session \<Rightarrow> json_object" where
  "ensemble_to_json configuration self = configuration (ensemble_state self)"

text \<open>\<open>Session._to_json\<close> (lines 330 to 333).\<close>

definition to_json :: "(ensemble_attrs \<Rightarrow> json_object) \<Rightarrow> session \<Rightarrow> json_object" where
  "to_json configuration self =
     (let json_object = ensemble_to_json configuration self
      in json_object(''tempo'' \<mapsto> JNumber (tempo (clock_state self))))"

subsection \<open>The server thread\<close>

text \<open>
  \<open>run_server\<close> of \<open>Session.run_as_server\<close> (lines 47 to 50): the thread makes the
  session its current clock and calls \<open>wait_forever\<close> on it over and over.
  \<open>Clock.wait_forever\<close> is not among the source files and is a parameter: a call of
  it returns (\<open>Some (Inr state)\<close>), raises (\<open>Some (Inl e)\<close>) or never comes back
  (\<open>None\<close>). The loop, too, has the value \<open>None\<close> when it runs forever.
\<close>

partial_function (option) serve ::
  "(callback_state \<Rightarrow> (py_exception + callback_state) option) \<Rightarrow> callback_state \<Rightarrow>
   (py_exception + callback_state) option" where
  "serve clock_wait_forever st =
     (case clock_wait_forever st of
        None \<Rightarrow> None
      | Some (Inl e) \<Rightarrow> Some (Inl e)
      | Some (Inr st') \<Rightarrow> serve clock_wait_forever st')"

definition run_server ::
  "(callback_state \<Rightarrow> (py_exception + callback_state) option) \<Rightarrow> callback_state \<Rightarrow>
   (py_exception + callback_state) option" where
  "run_server clock_wait_forever st =
     serve clock_wait_forever (set_thread_clock (Some SelfClock) st)"

section \<open>The playcorder (src/source/playcorderNew.py)\<close>

subsection \<open>Clocks\<close>

text \<open>
  Modelled from the spec: the class \<open>Clock\<close> of the module \<open>clock\<close>, which is not
  among the source files. A clock has a name and a rate and reads an absolute time and a
  beat position; a clock that forks owns its child clocks, in order, and the actions
  scheduled with the child clock each of them is to receive.
\<close>

record clock =
  clock_name :: string
  clock_rate :: real
  clock_time :: real
  clock_beats :: real

text \<open>
  The function handed to \<open>fork\<close>: of it the code looks at the number of parameters,
  \<open>len(signature(process_function).parameters)\<close>.
\<close>

record process_function =
  function_name :: string
  parameter_count :: nat

record forking_clock = clock +
  children :: "clock list"
  scheduled :: "(process_function \<times> clock) list"

text \<open>
  Modelled from the spec: \<open>Clock.fork\<close>, which "creates a child clock and schedules
  action to run concurrently, passing the child clock to the action" and "returns the child
  clock immediately". The child starts at beat zero, at the absolute time of its parent.
\<close>

definition clock_fork ::
  "forking_clock \<Rightarrow> process_function \<Rightarrow> string \<Rightarrow> real \<Rightarrow> clock \<times> forking_clock" where
  "clock_fork self action name initial_rate =
     (let child = \<lparr> clock_name = name, clock_rate = initial_rate,
                     clock_time = clock_time self, clock_beats = 0 \<rparr>
      in (child,
          self\<lparr> children := children self @ [child],
                scheduled := scheduled self @ [(action, child)] \<rparr>))"

text \<open>
  Modelled from the spec: \<open>Clock.wait\<close> on a clock without a parent, which "suspends
  the calling unit of execution until beats of musical time have elapsed on this clock" and
  fails when the duration is negative. The master clock of a playcorder runs at one beat a
  second.
\<close>

definition clock_wait :: "real \<Rightarrow> forking_clock \<Rightarrow> (py_exception + forking_clock) option" where
  "clock_wait duration self =
     (if duration < 0 then Some (Inl InvalidArgument)
      else Some (Inr (self\<lparr> clock_time := clock_time self + duration,
                            clock_beats := clock_beats self + duration \<rparr>)))"

subsection \<open>Data model\<close>

text \<open>
  Instruments, performances and their parts are objects of classes that are not among the
  source files. An instrument is known by its identity; the one attribute the playcorder
  assigns is \<open>_performance_part\<close>. Of a performance the playcorder uses \<open>parts\<close> and
  \<open>new_part(instrument)\<close>, of a part \<open>instrument\<close>. A performance carries the number
  under which it was created, so that two performances with the same parts are told apart.
\<close>

record performance_part =
  part_instrument :: nat
  part_of_performance :: nat

record performance =
  performance_number :: nat
  parts :: "performance_part list"

record playcorder_instrument =
  instrument_name :: string
  performance_part_of :: "performance_part option"
  notes_sounding :: nat

text \<open>
  \<open>self._recording_clock\<close>: the string \<open>"absolute"\<close> or a clock.
\<close>

datatype recording_clock = Absolute | OnClock clock

datatype warning = MoreThanOneParameter | NoParameter

record playcorder =
  master_clock :: forking_clock
  recording_clock :: "recording_clock option"
  recording_start_time :: "real option"
  performance_made :: "performance option"
  ensemble_instruments :: "nat list"
  instrument_state :: "nat \<Rightarrow> playcorder_instrument"
  performances_created :: nat
  logged_warnings :: "warning list"

subsection \<open>Clock methods of the playcorder\<close>

text \<open>\<open>Playcorder.time\<close> and \<open>Playcorder.beats\<close> (lines 66 to 70).\<close>

definition time :: "playcorder \<Rightarrow> real" where
  "time self = clock_time (master_clock self)"

definition beats :: "playcorder \<Rightarrow> real" where
  "beats self = clock_beats (master_clock self)"

text \<open>
  \<open>Playcorder.fork\<close> (lines 72 to 81). The bare \<open>return\<close> of the second branch
  returns \<open>None\<close>.
\<close>

definition fork ::
  "playcorder \<Rightarrow> process_function \<Rightarrow> string \<Rightarrow> real \<Rightarrow> clock option \<times> playcorder" where
  "fork self process_function name initial_rate =
     (let num_params = parameter_count process_function
      in if num_params > 1
         then (case clock_fork (master_clock self) process_function name initial_rate of
                 (child, master) \<Rightarrow>
                   (Some child,
                    self\<lparr> logged_warnings := logged_warnings self @ [MoreThanOneParameter],
                          master_clock := master \<rparr>))
         else if num_params = 0
         then (None, self\<lparr> logged_warnings := logged_warnings self @ [NoParameter] \<rparr>)
         else (case clock_fork (master_clock self) process_function name initial_rate of
                 (child, master) \<Rightarrow> (Some child, self\<lparr> master_clock := master \<rparr>)))"

text \<open>
  \<open>Playcorder.wait\<close> (lines 84 to 85) and \<open>Playcorder.wait_forever\<close> (lines 87 to
  89). The wait of the master clock is a parameter (\<open>master_wait\<close>): it returns,
  raises, or never comes back (\<open>None\<close>), and so does the loop.
\<close>

definition wait ::
  "(real \<Rightarrow> forking_clock \<Rightarrow> (py_exception + forking_clock) option) \<Rightarrow> real \<Rightarrow> playcorder \<Rightarrow>
   (py_exception + playcorder) option" where
  "wait master_wait seconds self =
     (case master_wait seconds (master_clock self) of
        None \<Rightarrow> None
      | Some (Inl e) \<Rightarrow> Some (Inl e)
      | Some (Inr master) \<Rightarrow> Some (Inr (self\<lparr> master_clock := master \<rparr>)))"

partial_function (option) wait_forever ::
  "(real \<Rightarrow> forking_clock \<Rightarrow> (py_exception + forking_clock) option) \<Rightarrow> playcorder \<Rightarrow>
   (py_exception + playcorder) option" where
  "wait_forever master_wait self =
     (case wait master_wait 1 self of
        None \<Rightarrow> None
      | Some (Inl e) \<Rightarrow> Some (Inl e)
      | Some (Inr self') \<Rightarrow> wait_forever master_wait self')"

subsection \<open>Recording\<close>

text \<open>
  The argument \<open>clock\<close> of \<open>start_recording\<close>: a string, a clock, or a value that is
  neither.
\<close>

datatype clock_arg = ClockString string | ClockObject clock | ClockOther

text \<open>
  \<open>Performance()\<close> and \<open>Performance.new_part(instrument)\<close>, as the playcorder uses
  them: a new performance has no parts; \<open>new_part\<close> makes a part for the instrument,
  adds it to the parts of the performance and returns it.
\<close>

definition new_part :: "performance \<Rightarrow> nat \<Rightarrow> performance_part \<times> performance" where
  "new_part perf instrument =
     (let part = \<lparr> part_instrument = instrument, part_of_performance = performance_number perf \<rparr>
      in (part, perf\<lparr> parts := parts perf @ [part] \<rparr>))"

text \<open>The loop of \<open>start_recording\<close> (lines 163 to 165).\<close>

fun set_performance_parts ::
  "nat list \<Rightarrow> performance \<Rightarrow> (nat \<Rightarrow> playcorder_instrument) \<Rightarrow>
   performance \<times> (nat \<Rightarrow> playcorder_instrument)" where
  "set_performance_parts [] perf state = (perf, state)"
| "set_performance_parts (instrument # rest) perf state =
     (case new_part perf instrument of
        (part, perf') \<Rightarrow>
          set_performance_parts rest perf'
            (state(instrument := (state instrument)\<lparr> performance_part_of := Some part \<rparr>)))"

text \<open>
  \<open>Playcorder.start_recording\<close> (lines 154 to 165). The clock of the master clock is
  the master clock seen as a plain clock.
\<close>

definition start_recording ::
  "playcorder \<Rightarrow> nat list option \<Rightarrow> clock_arg \<Rightarrow> (py_exception + unit) \<times> playcorder" where
  "start_recording self which_parts clock =
     (let clock1 = (if clock = ClockString ''master''
                    then ClockObject (clock.truncate (master_clock self))
                    else clock)
      in case (case clock1 of
                 ClockString s \<Rightarrow> if s = ''absolute'' then Some Absolute else None
               | ClockObject c \<Rightarrow> Some (OnClock c)
               | ClockOther \<Rightarrow> None) of
           None \<Rightarrow> (Inl AssertionError, self)
         | Some recording \<Rightarrow>
             (let start_time = (case recording of
                                  Absolute \<Rightarrow> time self
                                | OnClock c \<Rightarrow> clock_beats c);
                  chosen = (case which_parts of
                              None \<Rightarrow> ensemble_instruments self
                            | Some given \<Rightarrow> given);
                  fresh = \<lparr> performance_number = performances_created self, parts = [] \<rparr>
              in case set_performance_parts chosen fresh (instrument_state self) of
                   (perf, state) \<Rightarrow>
                     (Inr (),
                      self\<lparr> recording_clock := Some recording,
                            recording_start_time := Some start_time,
                            performance_made := Some perf,
                            performances_created := performances_created self + 1,
                            instrument_state := state \<rparr>)))"

text \<open>\<open>Playcorder.is_recording\<close> (lines 167 to 168).\<close>

definition is_recording :: "playcorder \<Rightarrow> bool" where
  "is_recording self \<longleftrightarrow> recording_start_time self \<noteq> None"

text \<open>
  The loop of \<open>stop_recording\<close> (lines 177 to 180). \<open>end_all_notes\<close> is a method of
  the instrument class, not among the source files, and is a parameter: it changes the
  instrument it is called on and returns or raises.
\<close>

fun end_parts ::
  "(playcorder_instrument \<Rightarrow> py_exception option \<times> playcorder_instrument) \<Rightarrow>
   performance_part list \<Rightarrow> (nat \<Rightarrow> playcorder_instrument) \<Rightarrow>
   py_exception option \<times> (nat \<Rightarrow> playcorder_instrument)" where
  "end_parts end_all_notes [] state = (None, state)"
| "end_parts end_all_notes (part # rest) state =
     (let instrument = part_instrument part
      in case end_all_notes (state instrument) of
           (Some e, ended) \<Rightarrow> (Some e, state(instrument := ended))
         | (None, ended) \<Rightarrow>
             end_parts end_all_notes rest
               (state(instrument := ended\<lparr> performance_part_of := None \<rparr>)))"

text \<open>
  \<open>Playcorder.stop_recording\<close> (lines 176 to 182). Without a performance,
  \<open>self.performance.parts\<close> is an \<open>AttributeError\<close>.
\<close>

definition stop_recording ::
  "(playcorder_instrument \<Rightarrow> py_exception option \<times> playcorder_instrument) \<Rightarrow> playcorder \<Rightarrow>
   (py_exception + performance) \<times> playcorder" where
  "stop_recording end_all_notes self =
     (case performance_made self of
        None \<Rightarrow> (Inl AttributeError, self)
      | Some perf \<Rightarrow>
          (case end_parts end_all_notes (parts perf) (instrument_state self) of
             (Some e, state) \<Rightarrow> (Inl e, self\<lparr> instrument_state := state \<rparr>)
           | (None, state) \<Rightarrow>
               (Inr perf,
                self\<lparr> instrument_state := state, recording_start_time := None \<rparr>)))"

text \<open>\<open>Playcorder.__init__\<close> (lines 36 to 45), with the instruments of its ensemble.\<close>

definition new_playcorder :: "nat list \<Rightarrow> (nat \<Rightarrow> playcorder_instrument) \<Rightarrow> playcorder" where
  "new_playcorder instruments_of_ensemble state =
     \<lparr> master_clock = \<lparr> clock_name = ''MASTER'', clock_rate = 1, clock_time = 0, clock_beats = 0,
                        children = [], scheduled = [] \<rparr>,
       recording_clock = None,
       recording_start_time = None,
       performance_made = None,
       ensemble_instruments = instruments_of_ensemble,
       instrument_state = state,
       performances_created = 0,
       logged_warnings = [] \<rparr>"

subsection \<open>Sample objects of the playcorder\<close>

text \<open>
  A wait that is interrupted from the keyboard, a server wait that is, an instrument with
  nothing sounding whose notes end without failure, a playcorder with the instruments
  0 and 1 in its ensemble, and functions to fork that take no, one and two parameters.
\<close>

definition interrupted_wait :: "real \<Rightarrow> forking_clock \<Rightarrow> (py_exception + forking_clock) option" where
  "interrupted_wait duration self = Some (Inl KeyboardInterrupt)"

definition interrupted_server_wait :: "callback_state \<Rightarrow> (py_exception + callback_state) option" where
  "interrupted_server_wait st = Some (Inl KeyboardInterrupt)"

definition woken_server_wait :: "callback_state \<Rightarrow> (py_exception + callback_state) option" where
  "woken_server_wait st = Some (Inr st)"

definition silent_instrument :: playcorder_instrument where
  "silent_instrument =
     \<lparr> instrument_name = ''piano'', performance_part_of = None, notes_sounding = 0 \<rparr>"

definition ends_notes :: "playcorder_instrument \<Rightarrow> py_exception option \<times> playcorder_instrument" where
  "ends_notes instrument = (None, instrument\<lparr> notes_sounding := 0 \<rparr>)"

definition duo :: playcorder where
  "duo = new_playcorder [0, 1] (\<lambda>instrument. silent_instrument)"

definition play_melody :: process_function where
  "play_melody = \<lparr> function_name = ''play_melody'', parameter_count = 0 \<rparr>"

definition play_on_clock :: process_function where
  "play_on_clock = \<lparr> function_name = ''play_on_clock'', parameter_count = 1 \<rparr>"

definition play_with_velocity :: process_function where
  "play_with_velocity = \<lparr> function_name = ''play_with_velocity'', parameter_count = 2 \<rparr>"

section \<open>Properties\<close>

subsection \<open>Transcription\<close>

text \<open>
  C8. Calling \<open>start_transcribing\<close> with \<open>instrument_or_instruments\<close> left as
  \<open>None\<close> on a session whose ensemble is empty raises \<open>ValueError\<close>. In every other
  case the call is handed to the transcriber: the instruments are the given ones, or all
  the session's instruments when none are given; the clock is the given one, or the
  session itself when none is given; the units are passed on unchanged.
\<close>

theorem start_transcribing_delegates:
  "(ioi = None \<and> instruments self = [] \<longrightarrow>
      start_transcribing super self ioi clock units = Inl ValueError) \<and>
   (\<not> (ioi = None \<and> instruments self = []) \<longrightarrow>
      start_transcribing super self ioi clock units =
        Inr (super (case ioi of None \<Rightarrow> InstrumentList (instruments self) | Some given \<Rightarrow> given)
                   (case clock of None \<Rightarrow> SelfClock | Some given \<Rightarrow> given)
                   units))"
  by (simp add: start_transcribing_def)

theorem start_transcribing_delegates_witness:
  "start_transcribing (\<lambda>given_instruments given_clock given_units. (given_instruments, given_clock, given_units))
     \<lparr> default_soundfont = ''default'', default_audio_driver = ''default'',
       default_midi_output_device = ''default'', default_spelling_policy = None,
       instruments = [] \<rparr> None None ''beats'' = Inl ValueError \<and>
   start_transcribing (\<lambda>given_instruments given_clock given_units. (given_instruments, given_clock, given_units))
     \<lparr> default_soundfont = ''default'', default_audio_driver = ''default'',
       default_midi_output_device = ''default'', default_spelling_policy = None,
       instruments = [ScampInstrument ''piano''] \<rparr> None None ''beats'' =
     Inr (InstrumentList [ScampInstrument ''piano''], SelfClock, ''beats'') \<and>
   start_transcribing (\<lambda>given_instruments given_clock given_units. (given_instruments, given_clock, given_units))
     \<lparr> default_soundfont = ''default'', default_audio_driver = ''default'',
       default_midi_output_device = ''default'', default_spelling_policy = None,
       instruments = [] \<rparr> (Some (OneInstrument (ScampInstrument ''flute''))) (Some (OtherClock ''child''))
       ''time'' =
     Inr (OneInstrument (ScampInstrument ''flute''), OtherClock ''child'', ''time'')"
  using
    start_transcribing_delegates [of None
      "\<lparr> default_soundfont = ''default'', default_audio_driver = ''default'',
         default_midi_output_device = ''default'', default_spelling_policy = None,
         instruments = [] \<rparr>"
      "\<lambda>given_instruments given_clock given_units. (given_instruments, given_clock, given_units)"
      None "''beats''"]
    start_transcribing_delegates [of None
      "\<lparr> default_soundfont = ''default'', default_audio_driver = ''default'',
         default_midi_output_device = ''default'', default_spelling_policy = None,
         instruments = [ScampInstrument ''piano''] \<rparr>"
      "\<lambda>given_instruments given_clock given_units. (given_instruments, given_clock, given_units)"
      None "''beats''"]
    start_transcribing_delegates [of "Some (OneInstrument (ScampInstrument ''flute''))"
      "\<lparr> default_soundfont = ''default'', default_audio_driver = ''default'',
         default_midi_output_device = ''default'', default_spelling_policy = None,
         instruments = [] \<rparr>"
      "\<lambda>given_instruments given_clock given_units. (given_instruments, given_clock, given_units)"
      "Some (OtherClock ''child'')" "''time''"]
  by simp

subsection \<open>The MIDI listener registry\<close>

lemma open_midi_inputs_append:
  "open_midi_inputs (xs @ ys) p = open_midi_inputs xs p + open_midi_inputs ys p"
  by (simp add: open_midi_inputs_def)

lemma new_session_ok: "midi_registry_ok (new_session t sf ad mo)"
  by (simp add: midi_registry_ok_def new_session_def open_midi_inputs_def)

lemma remove_midi_listener_absent:
  "resolve_port env arg = None \<or>
   (\<exists>p. resolve_port env arg = Some p \<and> midi (listeners self) p = None) \<Longrightarrow>
   remove_midi_listener env self arg = (Inl ValueError, self)"
  by (auto simp: remove_midi_listener_def)

lemma remove_midi_listener_present:
  "resolve_port env arg = Some p \<Longrightarrow> midi (listeners self) p = Some listener \<Longrightarrow>
   remove_midi_listener env self arg =
     (Inr (), self\<lparr> io_log := io_log self @ [ClosePort listener],
              listeners := (listeners self)\<lparr> midi := (midi (listeners self))(p := None) \<rparr> \<rparr>)"
  by (simp add: remove_midi_listener_def)

lemma remove_ok:
  assumes "midi_registry_ok self"
  shows "midi_registry_ok (snd (remove_midi_listener env self arg))"
proof (cases "resolve_port env arg")
  case None
  with assms show ?thesis by (simp add: remove_midi_listener_absent)
next
  case (Some port_number)
  note resolved = Some
  show ?thesis
  proof (cases "midi (listeners self) port_number")
    case None
    with resolved assms show ?thesis by (simp add: remove_midi_listener_absent)
  next
    case (Some listener)
    from assms Some have port: "midi_port listener = port_number"
      by (simp add: midi_registry_ok_def)
    have change: "open_midi_inputs [ClosePort listener] p = (if p = port_number then - 1 else 0)" for p
      using port by (simp add: open_midi_inputs_def)
    show ?thesis
      using assms Some
      unfolding remove_midi_listener_present [OF resolved Some] midi_registry_ok_def
      by (simp add: open_midi_inputs_append change)
  qed
qed

lemma register_midi_listener_rejected:
  "resolve_port env arg = None \<or>
   (\<exists>p. resolve_port env arg = Some p \<and> p \<notin> fst ` set (midi_input_devices env)) \<Longrightarrow>
   register_midi_listener env self arg cb = (Inl ValueError, self)"
  by (auto simp: register_midi_listener_def)

lemma register_midi_listener_free:
  "resolve_port env arg = Some p \<Longrightarrow> p \<in> fst ` set (midi_input_devices env) \<Longrightarrow>
   midi (listeners self) p = None \<Longrightarrow>
   register_midi_listener env self arg cb =
     (Inr (), self\<lparr> io_log := io_log self @ [StartMidiListener p cb],
              listeners := (listeners self)
                \<lparr> midi := (midi (listeners self))(p \<mapsto> MidiIn p cb) \<rparr> \<rparr>)"
  by (simp add: register_midi_listener_def dom_def)

lemma register_midi_listener_occupied:
  "resolve_port env arg = Some p \<Longrightarrow> p \<in> fst ` set (midi_input_devices env) \<Longrightarrow>
   midi (listeners self) p = Some listener \<Longrightarrow>
   register_midi_listener env self arg cb =
     (Inr (), self\<lparr> io_log := io_log self @ [ClosePort listener, StartMidiListener p cb],
              listeners := (listeners self)
                \<lparr> midi := (midi (listeners self))(p \<mapsto> MidiIn p cb) \<rparr> \<rparr>)"
  by (simp add: register_midi_listener_def dom_def remove_midi_listener_def resolve_port_def)

lemma register_ok:
  assumes "midi_registry_ok self"
  shows "midi_registry_ok (snd (register_midi_listener env self arg cb))"
proof (cases "resolve_port env arg")
  case None
  with assms show ?thesis by (simp add: register_midi_listener_rejected)
next
  case (Some p)
  note resolved = Some
  show ?thesis
  proof (cases "p \<in> fst ` set (midi_input_devices env)")
    case False
    with resolved assms show ?thesis by (simp add: register_midi_listener_rejected)
  next
    case True
    have start: "open_midi_inputs [StartMidiListener p cb] q = (if q = p then 1 else 0)" for q
      by (simp add: open_midi_inputs_def)
    show ?thesis
    proof (cases "midi (listeners self) p")
      case None
      show ?thesis
        using assms None
        unfolding register_midi_listener_free [OF resolved True None] midi_registry_ok_def
        by (simp add: open_midi_inputs_append start)
    next
      case (Some listener)
      from assms Some have port: "midi_port listener = p"
        by (simp add: midi_registry_ok_def)
      have both: "open_midi_inputs [ClosePort listener, StartMidiListener p cb] q = 0" for q
        using port by (simp add: open_midi_inputs_def)
      show ?thesis
        using assms Some
        unfolding register_midi_listener_occupied [OF resolved True Some] midi_registry_ok_def
        by (simp add: open_midi_inputs_append both)
    qed
  qed
qed

lemma midi_call_run_ok: "midi_registry_ok self \<Longrightarrow> midi_registry_ok (midi_call_run env c self)"
  by (cases c) (simp_all add: register_ok remove_ok)

lemma midi_calls_run_ok:
  "midi_registry_ok self \<Longrightarrow> midi_registry_ok (midi_calls_run env calls self)"
  unfolding midi_calls_run_def
  by (induction calls arbitrary: self) (simp_all add: midi_call_run_ok)

text \<open>
  C9. After any sequence of \<open>register_midi_listener\<close> and \<open>remove_midi_listener\<close>
  calls on a new session, every port has at most one listener: the number of MIDI inputs
  open on a port is one if the registry has an entry for the port and zero if it has none,
  and the entry is a listener of that port. Registering on a port that has a listener
  closes the existing listener and then starts the new one, which replaces it in the
  registry. Removing a port that has no listener (or a device name that matches no port)
  raises \<open>ValueError\<close> and leaves the session as it was.
\<close>

theorem midi_registry_one_listener_per_port:
  "(open_midi_inputs (io_log (midi_calls_run env calls (new_session t sf ad mo))) p =
      (case midi (listeners (midi_calls_run env calls (new_session t sf ad mo))) p of
         None \<Rightarrow> 0 | Some listener \<Rightarrow> 1)) \<and>
   (\<forall>listener. midi (listeners (midi_calls_run env calls (new_session t sf ad mo))) p = Some listener
      \<longrightarrow> midi_port listener = p) \<and>
   (resolve_port env arg = Some q \<and> q \<in> fst ` set (midi_input_devices env) \<and>
    midi (listeners self) q = Some old \<longrightarrow>
      register_midi_listener env self arg cb =
        (Inr (),
         self\<lparr> io_log := io_log self @ [ClosePort old, StartMidiListener q cb],
               listeners := (listeners self)
                 \<lparr> midi := (midi (listeners self))(q \<mapsto> MidiIn q cb) \<rparr> \<rparr>)) \<and>
   (resolve_port env arg = None \<or>
    (\<exists>q. resolve_port env arg = Some q \<and> midi (listeners self) q = None) \<longrightarrow>
      remove_midi_listener env self arg = (Inl ValueError, self))"
proof -
  let ?s = "midi_calls_run env calls (new_session t sf ad mo)"
  have ok: "midi_registry_ok ?s"
    by (rule midi_calls_run_ok) (rule new_session_ok)
  have count: "open_midi_inputs (io_log ?s) p =
      (case midi (listeners ?s) p of None \<Rightarrow> 0 | Some listener \<Rightarrow> 1)"
    using ok by (simp add: midi_registry_ok_def split: option.split)
  have port: "\<forall>listener. midi (listeners ?s) p = Some listener \<longrightarrow> midi_port listener = p"
    using ok by (simp add: midi_registry_ok_def)
  from count port show ?thesis
    using register_midi_listener_occupied [of env arg q self old cb]
      remove_midi_listener_absent [of env arg self]
    by blast
qed

theorem midi_registry_one_listener_per_port_witness:
  "open_midi_inputs
     (io_log (midi_calls_run studio
        [Register (PortNumber 0) (Callback ''first''), Register (DeviceName ''Keystation'') (Callback ''second''),
         Remove (PortNumber 1)]
        (new_session 60 ''default'' ''default'' ''default''))) 0 = 1 \<and>
   midi (listeners (midi_calls_run studio
        [Register (PortNumber 0) (Callback ''first''), Register (DeviceName ''Keystation'') (Callback ''second''),
         Remove (PortNumber 1)]
        (new_session 60 ''default'' ''default'' ''default''))) 0 = Some (MidiIn 0 (Callback ''second'')) \<and>
   io_log (midi_calls_run studio
        [Register (PortNumber 0) (Callback ''first''), Register (DeviceName ''Keystation'') (Callback ''second''),
         Remove (PortNumber 1)]
        (new_session 60 ''default'' ''default'' ''default'')) =
     [StartMidiListener 0 (Callback ''first''), ClosePort (MidiIn 0 (Callback ''first'')),
      StartMidiListener 0 (Callback ''second'')] \<and>
   remove_midi_listener studio (new_session 60 ''default'' ''default'' ''default'') (PortNumber 1) =
     (Inl ValueError, new_session 60 ''default'' ''default'' ''default'') \<and>
   fst (register_midi_listener studio
          (midi_calls_run studio [Register (PortNumber 0) (Callback ''first'')]
             (new_session 60 ''default'' ''default'' ''default''))
          (DeviceName ''Keystation'') (Callback ''second'')) = Inr ()"
  using midi_registry_one_listener_per_port
    [of studio "[]" 60 "''default''" "''default''" "''default''" 0
        "DeviceName ''Keystation''" 0
        "midi_calls_run studio [Register (PortNumber 0) (Callback ''first'')]
           (new_session 60 ''default'' ''default'' ''default'')"
        "MidiIn 0 (Callback ''first'')" "Callback ''second''"]
    midi_registry_one_listener_per_port
    [of studio "[Register (PortNumber 0) (Callback ''first''),
                 Register (DeviceName ''Keystation'') (Callback ''second''), Remove (PortNumber 1)]"
        60 "''default''" "''default''" "''default''" 0
        "PortNumber 1" 1 "new_session 60 ''default'' ''default'' ''default''"]
  by (simp add: midi_calls_run_def register_midi_listener_def remove_midi_listener_def
      resolve_port_def studio_def new_session_def open_midi_inputs_def dom_def)

subsection \<open>Failing registrations\<close>

text \<open>
  C7. The listed registration failures leave the session untouched:
  \<open>register_osc_listener\<close> without python-osc and \<open>register_keyboard_listener\<close>
  without pynput raise \<open>ImportError\<close>, \<open>register_midi_listener\<close> with a device name
  that matches no device or with a port that is not an available input port raises
  \<open>ValueError\<close>, and in each case the session after the call is the session before it:
  the registry, the clock state and the calls made on the external layers are unchanged.
\<close>

theorem listener_registration_failures_atomic:
  "(\<not> pythonosc_found env \<longrightarrow>
      register_osc_listener env self port osc_address_pattern cb ip_address = (Inl ImportError, self)) \<and>
   (\<not> pynput_found env \<longrightarrow>
      register_keyboard_listener env self on_press on_release suppress = (Inl ImportError, self)) \<and>
   (port_number_of_midi_device env device_name = None \<longrightarrow>
      register_midi_listener env self (DeviceName device_name) cb = (Inl ValueError, self)) \<and>
   (resolve_port env arg = Some p \<and> p \<notin> fst ` set (midi_input_devices env) \<longrightarrow>
      register_midi_listener env self arg cb = (Inl ValueError, self))"
  by (simp add: register_osc_listener_def register_keyboard_listener_def
      register_midi_listener_def resolve_port_def)

theorem listener_registration_failures_atomic_witness:
  "register_osc_listener studio (new_session 60 ''default'' ''default'' ''default'') 5005
     ''/gesture/start'' (Callback ''on_gesture'') ''127.0.0.1'' =
     (Inl ImportError, new_session 60 ''default'' ''default'' ''default'') \<and>
   register_keyboard_listener studio (new_session 60 ''default'' ''default'' ''default'')
     (Some (Callback ''key_down'')) None False =
     (Inl ImportError, new_session 60 ''default'' ''default'' ''default'') \<and>
   register_midi_listener studio (new_session 60 ''default'' ''default'' ''default'')
     (DeviceName ''Theremin'') (Callback ''on_midi'') =
     (Inl ValueError, new_session 60 ''default'' ''default'' ''default'') \<and>
   register_midi_listener studio (new_session 60 ''default'' ''default'' ''default'')
     (PortNumber 7) (Callback ''on_midi'') =
     (Inl ValueError, new_session 60 ''default'' ''default'' ''default'')"
  using listener_registration_failures_atomic
    [of studio "new_session 60 ''default'' ''default'' ''default''" 5005 "''/gesture/start''"
        "Callback ''on_midi''" "''127.0.0.1''" "Some (Callback ''key_down'')" None False
        "''Theremin''" "PortNumber 7" 7]
    listener_registration_failures_atomic
    [of studio "new_session 60 ''default'' ''default'' ''default''" 5005 "''/gesture/start''"
        "Callback ''on_gesture''" "''127.0.0.1''" "Some (Callback ''key_down'')" None False
        "''Theremin''" "PortNumber 7" 7]
  by (simp add: studio_def resolve_port_def)

subsection \<open>Listener callbacks\<close>

text \<open>
  A sequence of calls appends itself to the log, changes the suspension depth by its net
  number of levels, leaves the marker of its last assignment, and does not touch
  \<open>keys_down\<close>.
\<close>

lemma call_log_perform: "call_log (perform c st) = call_log st @ [c]"
  by (cases c) (simp_all add: rouse_and_hold_def release_from_suspension_def set_thread_clock_def)

lemma call_log_fold_perform: "call_log (fold perform calls st) = call_log st @ calls"
  by (induction calls arbitrary: st) (simp_all add: call_log_perform)

lemma depth_perform:
  "suspension_depth (session_clock (perform c st)) =
     suspension_depth (session_clock st) + depth_change [c]"
  by (cases c) (simp_all add: rouse_and_hold_def release_from_suspension_def set_thread_clock_def)

lemma depth_change_Cons: "depth_change (c # calls) = depth_change [c] + depth_change calls"
  by (cases c) simp_all

lemma depth_change_append: "depth_change (xs @ ys) = depth_change xs + depth_change ys"
proof (induction xs)
  case Nil
  show ?case by simp
next
  case (Cons c xs)
  have "depth_change ((c # xs) @ ys) = depth_change [c] + depth_change (xs @ ys)"
    using depth_change_Cons [of c "xs @ ys"] by simp
  also have "\<dots> = depth_change [c] + (depth_change xs + depth_change ys)"
    by (simp only: Cons.IH)
  also have "\<dots> = depth_change (c # xs) + depth_change ys"
    using depth_change_Cons [of c xs] by simp
  finally show ?case .
qed

lemma depth_fold_perform:
  "suspension_depth (session_clock (fold perform calls st)) =
     suspension_depth (session_clock st) + depth_change calls"
proof (induction calls arbitrary: st)
  case Nil
  show ?case by simp
next
  case (Cons c calls)
  show ?case
    using Cons.IH [of "perform c st"] depth_perform [of c st] depth_change_Cons [of c calls]
    by simp
qed

lemma depth_change_counts:
  "depth_change calls = int (count_list calls RouseAndHold) - int (count_list calls ReleaseFromSuspension)"
  by (induction calls rule: depth_change.induct) simp_all

lemma marker_perform: "thread_clock (perform c st) = marker_after [c] (thread_clock st)"
  by (cases c) (simp_all add: rouse_and_hold_def release_from_suspension_def set_thread_clock_def)

lemma marker_after_Cons: "marker_after (c # calls) m = marker_after calls (marker_after [c] m)"
  by (cases c) simp_all

lemma marker_fold_perform:
  "thread_clock (fold perform calls st) = marker_after calls (thread_clock st)"
proof (induction calls arbitrary: st)
  case Nil
  show ?case by simp
next
  case (Cons c calls)
  show ?case
    using Cons.IH [of "perform c st"] marker_perform [of c st] marker_after_Cons [of c calls]
    by simp
qed

lemma keys_down_perform: "keys_down (perform c st) = keys_down st"
  by (cases c) (simp_all add: rouse_and_hold_def release_from_suspension_def set_thread_clock_def)

lemma keys_down_fold_perform: "keys_down (fold perform calls st) = keys_down st"
  by (induction calls arbitrary: st) (simp_all add: keys_down_perform)

text \<open>What a call of a user function does, given what the function does.\<close>

lemma call_user_returns:
  "f (thread_clock st) args = (calls, None) \<Longrightarrow>
   call_user f args st = (Inr (), fold perform calls st)"
  by (simp add: call_user_def)

lemma call_user_raises:
  "f (thread_clock st) args = (calls, Some e) \<Longrightarrow>
   call_user f args st = (Inl e, fold perform calls st)"
  by (simp add: call_user_def)

lemma entered:
  "thread_clock (set_thread_clock (Some SelfClock) (rouse_and_hold st)) = Some SelfClock"
  "call_log (set_thread_clock (Some SelfClock) (rouse_and_hold st)) =
     call_log st @ [RouseAndHold, SetThreadClock (Some SelfClock)]"
  "suspension_depth (session_clock (set_thread_clock (Some SelfClock) (rouse_and_hold st))) =
     suspension_depth (session_clock st) + 1"
  "keys_down (set_thread_clock (Some SelfClock) (rouse_and_hold st)) = keys_down st"
  by (simp_all add: set_thread_clock_def rouse_and_hold_def)

lemma left:
  "thread_clock (release_from_suspension (set_thread_clock None st)) = None"
  "call_log (release_from_suspension (set_thread_clock None st)) =
     call_log st @ [SetThreadClock None, ReleaseFromSuspension]"
  "suspension_depth (session_clock (release_from_suspension (set_thread_clock None st))) =
     suspension_depth (session_clock st) - 1"
  "keys_down (release_from_suspension (set_thread_clock None st)) = keys_down st"
  by (simp_all add: set_thread_clock_def release_from_suspension_def)

lemma bracket_log:
  assumes "thread_clock st2 = Some SelfClock"
    and "f (Some SelfClock) args = (calls, outcome)"
  shows "call_log (snd (and_then (call_user f args st2)
            (\<lambda>st'. release_from_suspension (set_thread_clock None st')))) =
         call_log st2 @ calls @ (case outcome of None \<Rightarrow> bracket_close | Some e \<Rightarrow> [])"
  using assms
  by (cases outcome)
     (simp_all add: call_user_def and_then_def left call_log_fold_perform bracket_close_def)

lemma bracket_observed:
  assumes "thread_clock st2 = Some SelfClock"
    and "f (Some SelfClock) args = (calls, outcome)"
  shows "outcome_depth_marker (and_then (call_user f args st2)
            (\<lambda>st'. release_from_suspension (set_thread_clock None st'))) =
         (case outcome of
            None \<Rightarrow> (Inr (), suspension_depth (session_clock st2) + depth_change calls - 1, None)
          | Some e \<Rightarrow> (Inl e, suspension_depth (session_clock st2) + depth_change calls,
                       marker_after calls (Some SelfClock)))"
  using assms
  by (cases outcome)
     (simp_all add: call_user_def and_then_def left depth_fold_perform marker_fold_perform
        outcome_depth_marker_def)

lemma callback_wrapper_log:
  "callback_function (Some SelfClock) args = (calls, outcome) \<Longrightarrow>
   call_log (snd (callback_wrapper callback_function args st)) =
     call_log st @ bracket_open @ calls @ (case outcome of None \<Rightarrow> bracket_close | Some e \<Rightarrow> [])"
  unfolding callback_wrapper_def
  by (subst bracket_log [where calls = calls and outcome = outcome])
     (simp_all add: entered bracket_open_def)

lemma on_press_wrapper_log:
  "on_press (Some SelfClock) (name_and_number_from_key key) = (calls, outcome) \<Longrightarrow>
   fst (name_and_number_from_key key) \<notin> set (keys_down st) \<Longrightarrow>
   call_log (snd (on_press_wrapper on_press key st)) =
     call_log st @ bracket_open @ calls @ (case outcome of None \<Rightarrow> bracket_close | Some e \<Rightarrow> [])"
  unfolding on_press_wrapper_def
  by (cases "name_and_number_from_key key")
     (simp add: entered Let_def
        bracket_log [where calls = calls and outcome = outcome] bracket_open_def)

lemma on_press_wrapper_repeat_log:
  "fst (name_and_number_from_key key) \<in> set (keys_down st) \<Longrightarrow>
   call_log (snd (on_press_wrapper on_press key st)) = call_log st @ bracket_open @ bracket_close"
  unfolding on_press_wrapper_def
  by (cases "name_and_number_from_key key")
     (simp add: entered Let_def and_then_def left bracket_open_def bracket_close_def)

lemma on_release_wrapper_log:
  "on_release (Some SelfClock) (name_and_number_from_key key) = (calls, outcome) \<Longrightarrow>
   call_log (snd (on_release_wrapper on_release key st)) =
     call_log st @ bracket_open @ calls @ (case outcome of None \<Rightarrow> bracket_close | Some e \<Rightarrow> [])"
  unfolding on_release_wrapper_def
  by (cases "name_and_number_from_key key")
     (simp add: entered Let_def
        bracket_log [where calls = calls and outcome = outcome] bracket_open_def)

lemma on_move_wrapper_log:
  "on_move (Some SelfClock) (x * x_scale, y * y_scale) = (calls, outcome) \<Longrightarrow>
   call_log (snd (on_move_wrapper on_move x_scale y_scale (x, y) st)) =
     call_log st @ bracket_open @ calls @ (case outcome of None \<Rightarrow> bracket_close | Some e \<Rightarrow> [])"
  unfolding on_move_wrapper_def
  by (simp add: entered bracket_log [where calls = calls and outcome = outcome] bracket_open_def)

lemma on_scroll_wrapper_log:
  "on_scroll (Some SelfClock) (x * x_scale, y * y_scale, dx, dy) = (calls, outcome) \<Longrightarrow>
   call_log (snd (on_scroll_wrapper on_scroll x_scale y_scale (x, y, dx, dy) st)) =
     call_log st @ bracket_open @ calls @ (case outcome of None \<Rightarrow> bracket_close | Some e \<Rightarrow> [])"
  unfolding on_scroll_wrapper_def
  by (simp add: entered bracket_log [where calls = calls and outcome = outcome] bracket_open_def)

lemma on_click_wrapper_press_log:
  "on_press (Some SelfClock) (x * x_scale, y * y_scale, button_name) = (calls, outcome) \<Longrightarrow>
   call_log (snd (on_click_wrapper (Some on_press) on_release x_scale y_scale
                    (x, y, button_name, True) st)) =
     call_log st @ bracket_open @ calls @ (case outcome of None \<Rightarrow> bracket_close | Some e \<Rightarrow> [])"
  unfolding on_click_wrapper_def
  by (simp add: entered call_optional_def Let_def
        bracket_log [where calls = calls and outcome = outcome] bracket_open_def)

lemma on_click_wrapper_release_log:
  "on_release (Some SelfClock) (x * x_scale, y * y_scale, button_name) = (calls, outcome) \<Longrightarrow>
   call_log (snd (on_click_wrapper on_press (Some on_release) x_scale y_scale
                    (x, y, button_name, False) st)) =
     call_log st @ bracket_open @ calls @ (case outcome of None \<Rightarrow> bracket_close | Some e \<Rightarrow> [])"
  unfolding on_click_wrapper_def
  by (simp add: entered call_optional_def Let_def
        bracket_log [where calls = calls and outcome = outcome] bracket_open_def)


lemma callback_wrapper_observed:
  "callback_function (Some SelfClock) args = (calls, outcome) \<Longrightarrow>
   outcome_depth_marker (callback_wrapper callback_function args st) =
     (case outcome of
        None \<Rightarrow> (Inr (), suspension_depth (session_clock st) + depth_change calls, None)
      | Some e \<Rightarrow> (Inl e, suspension_depth (session_clock st) + 1 + depth_change calls,
                   marker_after calls (Some SelfClock)))"
  unfolding callback_wrapper_def
  by (subst bracket_observed [where calls = calls and outcome = outcome])
     (simp_all add: entered split: option.split)

lemma on_press_wrapper_observed:
  "on_press (Some SelfClock) (name_and_number_from_key key) = (calls, outcome) \<Longrightarrow>
   fst (name_and_number_from_key key) \<notin> set (keys_down st) \<Longrightarrow>
   outcome_depth_marker (on_press_wrapper on_press key st) =
     (case outcome of
        None \<Rightarrow> (Inr (), suspension_depth (session_clock st) + depth_change calls, None)
      | Some e \<Rightarrow> (Inl e, suspension_depth (session_clock st) + 1 + depth_change calls,
                   marker_after calls (Some SelfClock)))"
  unfolding on_press_wrapper_def
  by (cases "name_and_number_from_key key")
     (simp add: entered Let_def bracket_observed [where calls = calls and outcome = outcome]
        split: option.split)

lemma on_release_wrapper_observed:
  "on_release (Some SelfClock) (name_and_number_from_key key) = (calls, outcome) \<Longrightarrow>
   outcome_depth_marker (on_release_wrapper on_release key st) =
     (case outcome of
        None \<Rightarrow> (Inr (), suspension_depth (session_clock st) + depth_change calls, None)
      | Some e \<Rightarrow> (Inl e, suspension_depth (session_clock st) + 1 + depth_change calls,
                   marker_after calls (Some SelfClock)))"
  unfolding on_release_wrapper_def
  by (cases "name_and_number_from_key key")
     (simp add: entered Let_def bracket_observed [where calls = calls and outcome = outcome]
        split: option.split)

lemma on_move_wrapper_observed:
  "on_move (Some SelfClock) (x * x_scale, y * y_scale) = (calls, outcome) \<Longrightarrow>
   outcome_depth_marker (on_move_wrapper on_move x_scale y_scale (x, y) st) =
     (case outcome of
        None \<Rightarrow> (Inr (), suspension_depth (session_clock st) + depth_change calls, None)
      | Some e \<Rightarrow> (Inl e, suspension_depth (session_clock st) + 1 + depth_change calls,
                   marker_after calls (Some SelfClock)))"
  unfolding on_move_wrapper_def
  by (simp add: entered bracket_observed [where calls = calls and outcome = outcome]
        split: option.split)

lemma on_scroll_wrapper_observed:
  "on_scroll (Some SelfClock) (x * x_scale, y * y_scale, dx, dy) = (calls, outcome) \<Longrightarrow>
   outcome_depth_marker (on_scroll_wrapper on_scroll x_scale y_scale (x, y, dx, dy) st) =
     (case outcome of
        None \<Rightarrow> (Inr (), suspension_depth (session_clock st) + depth_change calls, None)
      | Some e \<Rightarrow> (Inl e, suspension_depth (session_clock st) + 1 + depth_change calls,
                   marker_after calls (Some SelfClock)))"
  unfolding on_scroll_wrapper_def
  by (simp add: entered bracket_observed [where calls = calls and outcome = outcome]
        split: option.split)

lemma on_click_wrapper_press_observed:
  "on_press (Some SelfClock) (x * x_scale, y * y_scale, button_name) = (calls, outcome) \<Longrightarrow>
   outcome_depth_marker (on_click_wrapper (Some on_press) on_release x_scale y_scale
                           (x, y, button_name, True) st) =
     (case outcome of
        None \<Rightarrow> (Inr (), suspension_depth (session_clock st) + depth_change calls, None)
      | Some e \<Rightarrow> (Inl e, suspension_depth (session_clock st) + 1 + depth_change calls,
                   marker_after calls (Some SelfClock)))"
  unfolding on_click_wrapper_def
  by (simp add: entered call_optional_def Let_def
        bracket_observed [where calls = calls and outcome = outcome] split: option.split)

lemma on_click_wrapper_release_observed:
  "on_release (Some SelfClock) (x * x_scale, y * y_scale, button_name) = (calls, outcome) \<Longrightarrow>
   outcome_depth_marker (on_click_wrapper on_press (Some on_release) x_scale y_scale
                           (x, y, button_name, False) st) =
     (case outcome of
        None \<Rightarrow> (Inr (), suspension_depth (session_clock st) + depth_change calls, None)
      | Some e \<Rightarrow> (Inl e, suspension_depth (session_clock st) + 1 + depth_change calls,
                   marker_after calls (Some SelfClock)))"
  unfolding on_click_wrapper_def
  by (simp add: entered call_optional_def Let_def
        bracket_observed [where calls = calls and outcome = outcome] split: option.split)

text \<open>
  C2, as stated, fails: the mouse-move wrapper around a callback that raises calls
  \<open>rouse_and_hold\<close>, sets the thread's current clock to the session and calls the
  callback, and nothing follows: the thread's current clock is not cleared and
  \<open>release_from_suspension\<close> is not called.
\<close>

theorem failing_move_callback_bracket_not_closed_counterexample:
  "fst (on_move_wrapper failing_callback 1 1 (3, 4) idle) = Inl (UserError ''boom'') \<and>
   call_log (snd (on_move_wrapper failing_callback 1 1 (3, 4) idle)) =
     [RouseAndHold, SetThreadClock (Some SelfClock), UserAction ''started''] \<and>
   SetThreadClock None \<notin> set (call_log (snd (on_move_wrapper failing_callback 1 1 (3, 4) idle))) \<and>
   ReleaseFromSuspension \<notin> set (call_log (snd (on_move_wrapper failing_callback 1 1 (3, 4) idle)))"
  by (simp add: on_move_wrapper_def call_user_def and_then_def failing_callback_def idle_def
      rouse_and_hold_def set_thread_clock_def)

text \<open>
  C2, amended. Every user callback that the session wraps runs after the same opening, and
  inside the whole bracket when it returns. For the OSC wrapper, the two keyboard wrappers
  (a key press reaches the user callback when the key is not already down) and the three
  mouse wrappers (a click reaches the press or the release callback, when that callback
  was given): the calls of the wrapper begin with \<open>rouse_and_hold\<close> and the
  assignment of the session to the thread's current clock, the user callback is called
  with the session as the thread's current clock, and its own calls follow. When the user
  callback returns, exactly two calls follow, in this order: the thread's current clock is
  set to \<open>None\<close>, then \<open>release_from_suspension\<close> is called. When the user callback
  raises, no call follows.
\<close>

theorem listener_callbacks_bracketed:
  "(osc_callback (Some SelfClock) args = (calls, outcome) \<longrightarrow>
      call_log (snd (callback_wrapper osc_callback args st)) =
        call_log st @ bracket_open @ calls @
          (case outcome of None \<Rightarrow> bracket_close | Some e \<Rightarrow> [])) \<and>
   (key_press (Some SelfClock) (name_and_number_from_key key) = (calls, outcome) \<and>
    fst (name_and_number_from_key key) \<notin> set (keys_down st) \<longrightarrow>
      call_log (snd (on_press_wrapper key_press key st)) =
        call_log st @ bracket_open @ calls @
          (case outcome of None \<Rightarrow> bracket_close | Some e \<Rightarrow> [])) \<and>
   (key_release (Some SelfClock) (name_and_number_from_key key) = (calls, outcome) \<longrightarrow>
      call_log (snd (on_release_wrapper key_release key st)) =
        call_log st @ bracket_open @ calls @
          (case outcome of None \<Rightarrow> bracket_close | Some e \<Rightarrow> [])) \<and>
   (mouse_move (Some SelfClock) (x * x_scale, y * y_scale) = (calls, outcome) \<longrightarrow>
      call_log (snd (on_move_wrapper mouse_move x_scale y_scale (x, y) st)) =
        call_log st @ bracket_open @ calls @
          (case outcome of None \<Rightarrow> bracket_close | Some e \<Rightarrow> [])) \<and>
   (mouse_scroll (Some SelfClock) (x * x_scale, y * y_scale, dx, dy) = (calls, outcome) \<longrightarrow>
      call_log (snd (on_scroll_wrapper mouse_scroll x_scale y_scale (x, y, dx, dy) st)) =
        call_log st @ bracket_open @ calls @
          (case outcome of None \<Rightarrow> bracket_close | Some e \<Rightarrow> [])) \<and>
   (mouse_press (Some SelfClock) (x * x_scale, y * y_scale, button_name) = (calls, outcome) \<longrightarrow>
      call_log (snd (on_click_wrapper (Some mouse_press) on_release x_scale y_scale (x, y, button_name, True) st)) =
        call_log st @ bracket_open @ calls @
          (case outcome of None \<Rightarrow> bracket_close | Some e \<Rightarrow> [])) \<and>
   (mouse_release (Some SelfClock) (x * x_scale, y * y_scale, button_name) = (calls, outcome) \<longrightarrow>
      call_log (snd (on_click_wrapper on_press (Some mouse_release) x_scale y_scale (x, y, button_name, False) st)) =
        call_log st @ bracket_open @ calls @
          (case outcome of None \<Rightarrow> bracket_close | Some e \<Rightarrow> []))"
  using callback_wrapper_log [of osc_callback args calls outcome st]
    on_press_wrapper_log [of key_press key calls outcome st]
    on_release_wrapper_log [of key_release key calls outcome st]
    on_move_wrapper_log [of mouse_move x x_scale y y_scale calls outcome st]
    on_scroll_wrapper_log [of mouse_scroll x x_scale y y_scale dx dy calls outcome st]
    on_click_wrapper_press_log [of mouse_press x x_scale y y_scale button_name calls outcome on_release st]
    on_click_wrapper_release_log [of mouse_release x x_scale y y_scale button_name calls outcome on_press st]
  by simp

theorem listener_callbacks_bracketed_witness:
  "call_log (snd (callback_wrapper quiet_callback [''/gesture/start''] idle)) =
     [RouseAndHold, SetThreadClock (Some SelfClock), UserAction ''played'',
      SetThreadClock None, ReleaseFromSuspension] \<and>
   call_log (snd (on_press_wrapper quiet_callback (KeyCode (Some ''a'') (Some 65)) idle)) =
     [RouseAndHold, SetThreadClock (Some SelfClock), UserAction ''played'',
      SetThreadClock None, ReleaseFromSuspension] \<and>
   call_log (snd (on_release_wrapper quiet_callback (KeyCode (Some ''a'') (Some 65)) idle)) =
     [RouseAndHold, SetThreadClock (Some SelfClock), UserAction ''played'',
      SetThreadClock None, ReleaseFromSuspension] \<and>
   call_log (snd (on_move_wrapper quiet_callback 1 1 (3, 4) idle)) =
     [RouseAndHold, SetThreadClock (Some SelfClock), UserAction ''played'',
      SetThreadClock None, ReleaseFromSuspension] \<and>
   call_log (snd (on_scroll_wrapper quiet_callback 1 1 (3, 4, 0, 1) idle)) =
     [RouseAndHold, SetThreadClock (Some SelfClock), UserAction ''played'',
      SetThreadClock None, ReleaseFromSuspension] \<and>
   call_log (snd (on_click_wrapper (Some quiet_callback) None 1 1 (3, 4, ''left'', True) idle)) =
     [RouseAndHold, SetThreadClock (Some SelfClock), UserAction ''played'',
      SetThreadClock None, ReleaseFromSuspension] \<and>
   call_log (snd (on_click_wrapper None (Some quiet_callback) 1 1 (3, 4, ''left'', False) idle)) =
     [RouseAndHold, SetThreadClock (Some SelfClock), UserAction ''played'',
      SetThreadClock None, ReleaseFromSuspension] \<and>
   call_log (snd (callback_wrapper failing_callback [''/gesture/start''] idle)) =
     [RouseAndHold, SetThreadClock (Some SelfClock), UserAction ''started''] \<and>
   call_log (snd (on_press_wrapper failing_callback (KeyCode (Some ''a'') (Some 65)) idle)) =
     [RouseAndHold, SetThreadClock (Some SelfClock), UserAction ''started''] \<and>
   call_log (snd (on_release_wrapper failing_callback (KeyCode (Some ''a'') (Some 65)) idle)) =
     [RouseAndHold, SetThreadClock (Some SelfClock), UserAction ''started''] \<and>
   call_log (snd (on_move_wrapper failing_callback 1 1 (3, 4) idle)) =
     [RouseAndHold, SetThreadClock (Some SelfClock), UserAction ''started''] \<and>
   call_log (snd (on_scroll_wrapper failing_callback 1 1 (3, 4, 0, 1) idle)) =
     [RouseAndHold, SetThreadClock (Some SelfClock), UserAction ''started''] \<and>
   call_log (snd (on_click_wrapper (Some failing_callback) None 1 1 (3, 4, ''left'', True) idle)) =
     [RouseAndHold, SetThreadClock (Some SelfClock), UserAction ''started''] \<and>
   call_log (snd (on_click_wrapper None (Some failing_callback) 1 1 (3, 4, ''left'', False) idle)) =
     [RouseAndHold, SetThreadClock (Some SelfClock), UserAction ''started'']"
  using listener_callbacks_bracketed
    [where osc_callback = "quiet_callback :: string list user_function"
       and args = "[''/gesture/start'']" and calls = "[UserAction ''played'']" and outcome = "None"
       and st = idle and key_press = quiet_callback and key_release = quiet_callback
       and key = "KeyCode (Some ''a'') (Some 65)"
       and mouse_move = quiet_callback and mouse_scroll = quiet_callback
       and mouse_press = quiet_callback and mouse_release = quiet_callback
       and on_press = None and on_release = None
       and x = 3 and y = 4 and x_scale = 1 and y_scale = 1 and dx = 0 and dy = 1
       and button_name = "''left''"]
    listener_callbacks_bracketed
    [where osc_callback = "failing_callback :: string list user_function"
       and args = "[''/gesture/start'']" and calls = "[UserAction ''started'']" and outcome = "Some (UserError ''boom'')"
       and st = idle and key_press = failing_callback and key_release = failing_callback
       and key = "KeyCode (Some ''a'') (Some 65)"
       and mouse_move = failing_callback and mouse_scroll = failing_callback
       and mouse_press = failing_callback and mouse_release = failing_callback
       and on_press = None and on_release = None
       and x = 3 and y = 4 and x_scale = 1 and y_scale = 1 and dx = 0 and dy = 1
       and button_name = "''left''"]
  by (simp add: quiet_callback_def failing_callback_def idle_def bracket_open_def bracket_close_def)

text \<open>
  C1, as stated, fails: the OSC wrapper around a callback that raises calls
  \<open>rouse_and_hold\<close> and never \<open>release_from_suspension\<close>; the exception leaves the
  wrapper with the session clock held one level deeper than before and the thread's
  current clock still set to the session.
\<close>

theorem failing_callback_leaves_clock_held_counterexample:
  "fst (callback_wrapper failing_callback [''/gesture/start''] idle) = Inl (UserError ''boom'') \<and>
   call_log (snd (callback_wrapper failing_callback [''/gesture/start''] idle)) =
     [RouseAndHold, SetThreadClock (Some SelfClock), UserAction ''started''] \<and>
   ReleaseFromSuspension \<notin> set (call_log (snd (callback_wrapper failing_callback [''/gesture/start''] idle))) \<and>
   suspension_depth (session_clock idle) = 0 \<and>
   suspension_depth (session_clock (snd (callback_wrapper failing_callback [''/gesture/start''] idle))) = 1 \<and>
   thread_clock (snd (callback_wrapper failing_callback [''/gesture/start''] idle)) = Some SelfClock"
  by (simp add: callback_wrapper_def call_user_def and_then_def failing_callback_def idle_def
      rouse_and_hold_def set_thread_clock_def)

text \<open>
  C1, amended. A wrapper releases the clock and clears the thread's current clock when the
  wrapped user callback returns: the wrapper then returns, the thread's current clock is
  \<open>None\<close>, and the suspension depth is the one before the call, changed only by what
  the callback's own calls did to it. When the user callback raises, the wrapper raises
  the same exception and does nothing more: the suspension depth stays one level above
  that, and the thread's current clock stays as the callback left it, which is the session
  unless the callback assigned it.
\<close>

theorem release_pairs_with_rouse_when_callback_returns:
  "(osc_callback (Some SelfClock) args = (calls, outcome) \<longrightarrow>
      outcome_depth_marker (callback_wrapper osc_callback args st) =
        (case outcome of
           None \<Rightarrow> (Inr (), suspension_depth (session_clock st) + depth_change calls, None)
         | Some e \<Rightarrow> (Inl e, suspension_depth (session_clock st) + 1 + depth_change calls,
                      marker_after calls (Some SelfClock)))) \<and>
   (key_press (Some SelfClock) (name_and_number_from_key key) = (calls, outcome) \<and>
    fst (name_and_number_from_key key) \<notin> set (keys_down st) \<longrightarrow>
      outcome_depth_marker (on_press_wrapper key_press key st) =
        (case outcome of
           None \<Rightarrow> (Inr (), suspension_depth (session_clock st) + depth_change calls, None)
         | Some e \<Rightarrow> (Inl e, suspension_depth (session_clock st) + 1 + depth_change calls,
                      marker_after calls (Some SelfClock)))) \<and>
   (key_release (Some SelfClock) (name_and_number_from_key key) = (calls, outcome) \<longrightarrow>
      outcome_depth_marker (on_release_wrapper key_release key st) =
        (case outcome of
           None \<Rightarrow> (Inr (), suspension_depth (session_clock st) + depth_change calls, None)
         | Some e \<Rightarrow> (Inl e, suspension_depth (session_clock st) + 1 + depth_change calls,
                      marker_after calls (Some SelfClock)))) \<and>
   (mouse_move (Some SelfClock) (x * x_scale, y * y_scale) = (calls, outcome) \<longrightarrow>
      outcome_depth_marker (on_move_wrapper mouse_move x_scale y_scale (x, y) st) =
        (case outcome of
           None \<Rightarrow> (Inr (), suspension_depth (session_clock st) + depth_change calls, None)
         | Some e \<Rightarrow> (Inl e, suspension_depth (session_clock st) + 1 + depth_change calls,
                      marker_after calls (Some SelfClock)))) \<and>
   (mouse_scroll (Some SelfClock) (x * x_scale, y * y_scale, dx, dy) = (calls, outcome) \<longrightarrow>
      outcome_depth_marker (on_scroll_wrapper mouse_scroll x_scale y_scale (x, y, dx, dy) st) =
        (case outcome of
           None \<Rightarrow> (Inr (), suspension_depth (session_clock st) + depth_change calls, None)
         | Some e \<Rightarrow> (Inl e, suspension_depth (session_clock st) + 1 + depth_change calls,
                      marker_after calls (Some SelfClock)))) \<and>
   (mouse_press (Some SelfClock) (x * x_scale, y * y_scale, button_name) = (calls, outcome) \<longrightarrow>
      outcome_depth_marker (on_click_wrapper (Some mouse_press) on_release x_scale y_scale (x, y, button_name, True) st) =
        (case outcome of
           None \<Rightarrow> (Inr (), suspension_depth (session_clock st) + depth_change calls, None)
         | Some e \<Rightarrow> (Inl e, suspension_depth (session_clock st) + 1 + depth_change calls,
                      marker_after calls (Some SelfClock)))) \<and>
   (mouse_release (Some SelfClock) (x * x_scale, y * y_scale, button_name) = (calls, outcome) \<longrightarrow>
      outcome_depth_marker (on_click_wrapper on_press (Some mouse_release) x_scale y_scale (x, y, button_name, False) st) =
        (case outcome of
           None \<Rightarrow> (Inr (), suspension_depth (session_clock st) + depth_change calls, None)
         | Some e \<Rightarrow> (Inl e, suspension_depth (session_clock st) + 1 + depth_change calls,
                      marker_after calls (Some SelfClock))))"
  using callback_wrapper_observed [of osc_callback args calls outcome st]
    on_press_wrapper_observed [of key_press key calls outcome st]
    on_release_wrapper_observed [of key_release key calls outcome st]
    on_move_wrapper_observed [of mouse_move x x_scale y y_scale calls outcome st]
    on_scroll_wrapper_observed [of mouse_scroll x x_scale y y_scale dx dy calls outcome st]
    on_click_wrapper_press_observed [of mouse_press x x_scale y y_scale button_name calls outcome on_release st]
    on_click_wrapper_release_observed [of mouse_release x x_scale y y_scale button_name calls outcome on_press st]
  by simp

theorem release_pairs_with_rouse_when_callback_returns_witness:
  "outcome_depth_marker (callback_wrapper quiet_callback [''/gesture/start''] idle) = (Inr (), 0, None) \<and>
   outcome_depth_marker (on_press_wrapper quiet_callback (KeyCode (Some ''a'') (Some 65)) idle) = (Inr (), 0, None) \<and>
   outcome_depth_marker (on_release_wrapper quiet_callback (KeyCode (Some ''a'') (Some 65)) idle) = (Inr (), 0, None) \<and>
   outcome_depth_marker (on_move_wrapper quiet_callback 1 1 (3, 4) idle) = (Inr (), 0, None) \<and>
   outcome_depth_marker (on_scroll_wrapper quiet_callback 1 1 (3, 4, 0, 1) idle) = (Inr (), 0, None) \<and>
   outcome_depth_marker (on_click_wrapper (Some quiet_callback) None 1 1 (3, 4, ''left'', True) idle) = (Inr (), 0, None) \<and>
   outcome_depth_marker (on_click_wrapper None (Some quiet_callback) 1 1 (3, 4, ''left'', False) idle) = (Inr (), 0, None) \<and>
   outcome_depth_marker (callback_wrapper failing_callback [''/gesture/start''] idle) =
     (Inl (UserError ''boom''), 1, Some SelfClock) \<and>
   outcome_depth_marker (on_press_wrapper failing_callback (KeyCode (Some ''a'') (Some 65)) idle) =
     (Inl (UserError ''boom''), 1, Some SelfClock) \<and>
   outcome_depth_marker (on_release_wrapper failing_callback (KeyCode (Some ''a'') (Some 65)) idle) =
     (Inl (UserError ''boom''), 1, Some SelfClock) \<and>
   outcome_depth_marker (on_move_wrapper failing_callback 1 1 (3, 4) idle) =
     (Inl (UserError ''boom''), 1, Some SelfClock) \<and>
   outcome_depth_marker (on_scroll_wrapper failing_callback 1 1 (3, 4, 0, 1) idle) =
     (Inl (UserError ''boom''), 1, Some SelfClock) \<and>
   outcome_depth_marker (on_click_wrapper (Some failing_callback) None 1 1 (3, 4, ''left'', True) idle) =
     (Inl (UserError ''boom''), 1, Some SelfClock) \<and>
   outcome_depth_marker (on_click_wrapper None (Some failing_callback) 1 1 (3, 4, ''left'', False) idle) =
     (Inl (UserError ''boom''), 1, Some SelfClock)"
  using release_pairs_with_rouse_when_callback_returns
    [where osc_callback = "quiet_callback :: string list user_function"
       and args = "[''/gesture/start'']" and calls = "[UserAction ''played'']" and outcome = "None"
       and st = idle and key_press = quiet_callback and key_release = quiet_callback
       and key = "KeyCode (Some ''a'') (Some 65)"
       and mouse_move = quiet_callback and mouse_scroll = quiet_callback
       and mouse_press = quiet_callback and mouse_release = quiet_callback
       and on_press = None and on_release = None
       and x = 3 and y = 4 and x_scale = 1 and y_scale = 1 and dx = 0 and dy = 1
       and button_name = "''left''"]
    release_pairs_with_rouse_when_callback_returns
    [where osc_callback = "failing_callback :: string list user_function"
       and args = "[''/gesture/start'']" and calls = "[UserAction ''started'']" and outcome = "Some (UserError ''boom'')"
       and st = idle and key_press = failing_callback and key_release = failing_callback
       and key = "KeyCode (Some ''a'') (Some 65)"
       and mouse_move = failing_callback and mouse_scroll = failing_callback
       and mouse_press = failing_callback and mouse_release = failing_callback
       and on_press = None and on_release = None
       and x = 3 and y = 4 and x_scale = 1 and y_scale = 1 and dx = 0 and dy = 1
       and button_name = "''left''"]
  by (simp add: quiet_callback_def failing_callback_def idle_def)

text \<open>
  C4. \<open>rouse_and_hold()\<close> followed by \<open>release_from_suspension()\<close> leaves the
  suspension depth of the clock as it was, for every starting depth. The same holds with
  any calls between the two in which \<open>rouse_and_hold\<close> and
  \<open>release_from_suspension\<close> occur equally often, nested pairs among them, and for
  the OSC wrapper around a user callback that returns after making such calls.
\<close>

theorem rouse_release_pair_restores_depth:
  "suspension_depth (session_clock (release_from_suspension (rouse_and_hold st))) =
     suspension_depth (session_clock st) \<and>
   (count_list calls RouseAndHold = count_list calls ReleaseFromSuspension \<longrightarrow>
      suspension_depth (session_clock
        (release_from_suspension (fold perform calls (rouse_and_hold st)))) =
        suspension_depth (session_clock st)) \<and>
   (callback_function (Some SelfClock) args = (calls, None) \<and>
    count_list calls RouseAndHold = count_list calls ReleaseFromSuspension \<longrightarrow>
      fst (callback_wrapper callback_function args st) = Inr () \<and>
      suspension_depth (session_clock (snd (callback_wrapper callback_function args st))) =
        suspension_depth (session_clock st))"
proof -
  have pair: "suspension_depth (session_clock (release_from_suspension (rouse_and_hold st))) =
      suspension_depth (session_clock st)"
    by (simp add: release_from_suspension_def rouse_and_hold_def)
  have nested: "suspension_depth (session_clock
        (release_from_suspension (fold perform calls (rouse_and_hold st)))) =
        suspension_depth (session_clock st)"
    if "count_list calls RouseAndHold = count_list calls ReleaseFromSuspension"
  proof -
    from that have "depth_change calls = 0"
      by (simp add: depth_change_counts)
    then show ?thesis
      by (simp add: release_from_suspension_def depth_fold_perform rouse_and_hold_def)
  qed
  have wrapped: "fst (callback_wrapper callback_function args st) = Inr () \<and>
      suspension_depth (session_clock (snd (callback_wrapper callback_function args st))) =
        suspension_depth (session_clock st)"
    if "callback_function (Some SelfClock) args = (calls, None)"
      and "count_list calls RouseAndHold = count_list calls ReleaseFromSuspension"
  proof -
    from that(2) have "depth_change calls = 0"
      by (simp add: depth_change_counts)
    with callback_wrapper_observed [of callback_function args calls None st] that(1) show ?thesis
      by (simp add: outcome_depth_marker_def)
  qed
  from pair nested wrapped show ?thesis by blast
qed

theorem rouse_release_pair_restores_depth_witness:
  "suspension_depth (session_clock
     (release_from_suspension
        (fold perform [RouseAndHold, RouseAndHold, ReleaseFromSuspension, UserAction ''forked'',
                       ReleaseFromSuspension]
           (rouse_and_hold idle)))) = 0 \<and>
   fst (callback_wrapper forking_callback [''/gesture/start''] idle) = Inr () \<and>
   suspension_depth (session_clock (snd (callback_wrapper forking_callback [''/gesture/start''] idle))) = 0"
  using rouse_release_pair_restores_depth
      [of idle "[RouseAndHold, RouseAndHold, ReleaseFromSuspension, UserAction ''forked'',
                 ReleaseFromSuspension]" quiet_callback "()"]
    rouse_release_pair_restores_depth
      [of idle "[RouseAndHold, UserAction ''forked'', ReleaseFromSuspension]"
          "forking_callback :: string list user_function" "[''/gesture/start'']"]
  by (simp add: forking_callback_def idle_def)

subsection \<open>Waiting forever\<close>

text \<open>
  Whatever the loops return is an exception of the wait inside them; a loop whose wait
  always returns has no result at all.
\<close>

lemma wait_returns:
  "master_wait seconds (master_clock self) = Some (Inr master) \<Longrightarrow>
   wait master_wait seconds self = Some (Inr (self\<lparr> master_clock := master \<rparr>))"
  by (simp add: wait_def)

lemma wait_forever_result:
  assumes "wait_forever master_wait self = Some result"
  shows "\<exists>e. result = Inl e"
  by (rule wait_forever.raw_induct [where P = "\<lambda>_ _ y. \<exists>e. y = Inl e", OF _ assms])
     (auto split: option.splits sum.splits)

lemma wait_forever_stuck:
  assumes "wait_forever master_wait self = Some result"
  shows "\<not> (\<forall>c. \<exists>c'. master_wait 1 c = Some (Inr c'))"
proof (rule wait_forever.raw_induct
    [where P = "\<lambda>w _ _. \<not> (\<forall>c. \<exists>c'. w 1 c = Some (Inr c'))", OF _ assms])
  fix loop master_wait self result
  assume IH: "\<And>w s y. loop w s = Some y \<Longrightarrow> \<not> (\<forall>c. \<exists>c'. w 1 c = Some (Inr c'))"
    and step: "(case wait master_wait 1 self of
                  None \<Rightarrow> None
                | Some (Inl e) \<Rightarrow> Some (Inl e)
                | Some (Inr self') \<Rightarrow> loop master_wait self') = Some result"
  show "\<not> (\<forall>c. \<exists>c'. master_wait 1 c = Some (Inr c'))"
  proof
    assume always: "\<forall>c. \<exists>c'. master_wait 1 c = Some (Inr c')"
    then obtain master where "master_wait 1 (master_clock self) = Some (Inr master)"
      by blast
    then have "wait master_wait 1 self = Some (Inr (self\<lparr> master_clock := master \<rparr>))"
      by (rule wait_returns)
    with step have "loop master_wait (self\<lparr> master_clock := master \<rparr>) = Some result"
      by simp
    from IH [OF this] always show False by blast
  qed
qed

lemma serve_result:
  assumes "serve clock_wait_forever st = Some result"
  shows "\<exists>e. result = Inl e"
  by (rule serve.raw_induct [where P = "\<lambda>_ _ y. \<exists>e. y = Inl e", OF _ assms])
     (auto split: option.splits sum.splits)

lemma serve_stuck:
  assumes "serve clock_wait_forever st = Some result"
  shows "\<exists>st' e. clock_wait_forever st' = Some (Inl e)"
  by (rule serve.raw_induct
        [where P = "\<lambda>w _ _. \<exists>st' e. w st' = Some (Inl e)", OF _ assms])
     (auto split: option.splits sum.splits)

text \<open>
  C5. \<open>wait_forever()\<close> never returns to its caller. The loop of
  \<open>Playcorder.wait_forever\<close> over waits of one second has no normal result, whatever
  the wait of the master clock does: if the loop ends at all, it ends with an exception
  raised by a wait; if every wait of one second returns, as the wait of a clock without a
  parent does, the loop runs forever. The same holds for the loop of the server thread
  around \<open>wait_forever\<close> of the session clock: it never returns, and it runs forever
  unless a call of \<open>wait_forever\<close> raises. That a wait can be cut short by a signal
  from another thread is covered only in that each wait may come back at any time.
\<close>

theorem wait_forever_never_returns:
  "(wait_forever master_wait self = Some result \<longrightarrow> (\<exists>e. result = Inl e)) \<and>
   ((\<forall>c. \<exists>c'. master_wait 1 c = Some (Inr c')) \<longrightarrow> wait_forever master_wait self = None) \<and>
   wait_forever clock_wait self = None \<and>
   (run_server clock_wait_forever st = Some served \<longrightarrow> (\<exists>e. served = Inl e)) \<and>
   ((\<forall>st' e. clock_wait_forever st' \<noteq> Some (Inl e)) \<longrightarrow>
      run_server clock_wait_forever st = None)"
proof -
  have loop: "wait_forever w self = None" if "\<forall>c. \<exists>c'. w 1 c = Some (Inr c')" for w
  proof (cases "wait_forever w self")
    case None
    then show ?thesis .
  next
    case (Some r)
    from wait_forever_stuck [OF this] that show ?thesis by blast
  qed
  have unit: "\<forall>c. \<exists>c'. clock_wait 1 c = Some (Inr c')"
    by (simp add: clock_wait_def)
  have server: "run_server clock_wait_forever st = None"
    if "\<forall>st' e. clock_wait_forever st' \<noteq> Some (Inl e)"
  proof (cases "run_server clock_wait_forever st")
    case None
    then show ?thesis .
  next
    case (Some r)
    then have "serve clock_wait_forever (set_thread_clock (Some SelfClock) st) = Some r"
      by (simp add: run_server_def)
    from serve_stuck [OF this] that show ?thesis by blast
  qed
  have served: "\<exists>e. served = Inl e" if "run_server clock_wait_forever st = Some served"
    using that serve_result [of clock_wait_forever "set_thread_clock (Some SelfClock) st" served]
    by (simp add: run_server_def)
  from loop [of master_wait] loop [of clock_wait] unit server served
    wait_forever_result [of master_wait self result]
  show ?thesis by blast
qed

theorem wait_forever_never_returns_witness:
  "wait_forever interrupted_wait duo = Some (Inl KeyboardInterrupt) \<and>
   wait_forever clock_wait duo = None \<and>
   run_server interrupted_server_wait idle = Some (Inl KeyboardInterrupt) \<and>
   run_server woken_server_wait idle = None"
proof -
  have interrupted: "wait_forever interrupted_wait duo = Some (Inl KeyboardInterrupt)"
    by (subst wait_forever.simps) (simp add: wait_def interrupted_wait_def)
  have server: "run_server interrupted_server_wait idle = Some (Inl KeyboardInterrupt)"
    unfolding run_server_def
    by (subst serve.simps) (simp add: interrupted_server_wait_def)
  have unit: "\<forall>c. \<exists>c'. clock_wait 1 c = Some (Inr c')"
    by (simp add: clock_wait_def)
  have woken: "\<forall>st' e. woken_server_wait st' \<noteq> Some (Inl e)"
    by (simp add: woken_server_wait_def)
  from interrupted server unit woken
    wait_forever_never_returns [of interrupted_wait duo "Inl KeyboardInterrupt"
      interrupted_server_wait idle "Inl KeyboardInterrupt"]
    wait_forever_never_returns [of clock_wait duo "Inl KeyboardInterrupt"
      woken_server_wait idle "Inl KeyboardInterrupt"]
  show ?thesis by blast
qed

subsection \<open>Forking from the playcorder\<close>

text \<open>
  C3, as stated, fails: for a function that takes no parameter \<open>Playcorder.fork\<close>
  returns \<open>None\<close>, and the master clock has no child clock and nothing scheduled
  afterwards.
\<close>

theorem fork_without_parameter_counterexample:
  "fst (fork duo play_melody '''' 1) = None \<and>
   children (master_clock duo) = [] \<and>
   children (master_clock (snd (fork duo play_melody '''' 1))) = [] \<and>
   scheduled (master_clock (snd (fork duo play_melody '''' 1))) = []"
  by (simp add: fork_def play_melody_def duo_def new_playcorder_def Let_def)

text \<open>
  C3, amended. For every action function that takes at least one parameter,
  \<open>Playcorder.fork\<close> returns the child clock that the master clock creates, with the
  given name and initial rate; the child is added to the children of the master clock and
  the action is scheduled with the child clock as its argument. A function that takes
  exactly one parameter is forked without a warning, a function that takes more than one
  after the warning that the additional arguments are not used, and nothing else of the
  playcorder changes. For a function that takes no parameter, \<open>fork\<close> logs a warning,
  returns \<open>None\<close> and leaves the master clock, and everything but the warnings, as it
  was.
\<close>

theorem fork_returns_child_clock:
  "(0 < parameter_count process_function \<longrightarrow>
      (\<exists>child. fst (fork self process_function name initial_rate) = Some child \<and>
         clock_name child = name \<and> clock_rate child = initial_rate \<and>
         children (master_clock (snd (fork self process_function name initial_rate))) =
           children (master_clock self) @ [child] \<and>
         scheduled (master_clock (snd (fork self process_function name initial_rate))) =
           scheduled (master_clock self) @ [(process_function, child)] \<and>
         snd (fork self process_function name initial_rate) =
           self\<lparr> logged_warnings :=
                   logged_warnings self @
                     (if 1 < parameter_count process_function then [MoreThanOneParameter] else []),
                 master_clock := (master_clock self)
                   \<lparr> children := children (master_clock self) @ [child],
                     scheduled := scheduled (master_clock self) @ [(process_function, child)] \<rparr> \<rparr>)) \<and>
   (1 < parameter_count process_function \<longrightarrow>
      logged_warnings (snd (fork self process_function name initial_rate)) =
        logged_warnings self @ [MoreThanOneParameter]) \<and>
   (parameter_count process_function = 1 \<longrightarrow>
      logged_warnings (snd (fork self process_function name initial_rate)) =
        logged_warnings self) \<and>
   (parameter_count process_function = 0 \<longrightarrow>
      fst (fork self process_function name initial_rate) = None \<and>
      master_clock (snd (fork self process_function name initial_rate)) = master_clock self \<and>
      logged_warnings (snd (fork self process_function name initial_rate)) =
        logged_warnings self @ [NoParameter] \<and>
      snd (fork self process_function name initial_rate) =
        self\<lparr> logged_warnings := logged_warnings self @ [NoParameter] \<rparr>)"
  by (simp add: fork_def clock_fork_def Let_def)

theorem fork_returns_child_clock_witness:
  "fst (fork duo play_on_clock ''melody'' 2) =
     Some \<lparr> clock_name = ''melody'', clock_rate = 2, clock_time = 0, clock_beats = 0 \<rparr> \<and>
   children (master_clock (snd (fork duo play_on_clock ''melody'' 2))) =
     [\<lparr> clock_name = ''melody'', clock_rate = 2, clock_time = 0, clock_beats = 0 \<rparr>] \<and>
   scheduled (master_clock (snd (fork duo play_on_clock ''melody'' 2))) =
     [(play_on_clock, \<lparr> clock_name = ''melody'', clock_rate = 2, clock_time = 0, clock_beats = 0 \<rparr>)] \<and>
   logged_warnings (snd (fork duo play_on_clock ''melody'' 2)) = [] \<and>
   fst (fork duo play_with_velocity ''melody'' 2) =
     Some \<lparr> clock_name = ''melody'', clock_rate = 2, clock_time = 0, clock_beats = 0 \<rparr> \<and>
   logged_warnings (snd (fork duo play_with_velocity ''melody'' 2)) = [MoreThanOneParameter] \<and>
   fst (fork duo play_melody ''melody'' 2) = None \<and>
   master_clock (snd (fork duo play_melody ''melody'' 2)) = master_clock duo \<and>
   logged_warnings (snd (fork duo play_melody ''melody'' 2)) = [NoParameter]"
  using fork_returns_child_clock [of play_on_clock duo "''melody''" 2]
    fork_returns_child_clock [of play_with_velocity duo "''melody''" 2]
    fork_returns_child_clock [of play_melody duo "''melody''" 2]
  by (simp add: play_on_clock_def play_with_velocity_def play_melody_def duo_def
      new_playcorder_def fork_def clock_fork_def Let_def)

subsection \<open>Serialising a session\<close>

text \<open>
  C6. \<open>Session._to_json\<close> is \<open>Ensemble._to_json\<close> of the same session with the
  key \<open>"tempo"\<close> set to the tempo of the session: its keys are the keys of the
  ensemble's dictionary and \<open>"tempo"\<close>, and it does not depend on the listener
  registry, on the transcription state, on the calls made on the external layers, or on
  the child clocks and the suspension depth of the clock.
\<close>

theorem session_to_json_is_ensemble_plus_tempo:
  "to_json configuration self =
     (ensemble_to_json configuration self)(''tempo'' \<mapsto> JNumber (tempo (clock_state self))) \<and>
   dom (to_json configuration self) =
     insert ''tempo'' (dom (ensemble_to_json configuration self)) \<and>
   to_json configuration
     (self\<lparr> listeners := registry, transcriptions := transcribing, io_log := made,
            clock_state := (clock_state self)
              \<lparr> child_clocks := forked, suspension_depth := depth \<rparr> \<rparr>) =
     to_json configuration self"
  by (simp add: to_json_def ensemble_to_json_def Let_def)

subsection \<open>Recording\<close>

text \<open>
  The loop of \<open>start_recording\<close> adds one part for each chosen instrument, in order; the
  loop of \<open>stop_recording\<close>, when it runs to its end, leaves every instrument of a
  recorded part without a performance part, and so every instrument that had none.
\<close>

lemma set_performance_parts_performance:
  "fst (set_performance_parts chosen perf state) =
     perf\<lparr> parts := parts perf @
       map (\<lambda>instrument. \<lparr> part_instrument = instrument,
                           part_of_performance = performance_number perf \<rparr>) chosen \<rparr>"
proof (induction chosen arbitrary: perf state)
  case Nil
  show ?case by simp
next
  case (Cons instrument rest)
  show ?case
    by (simp add: new_part_def Let_def Cons.IH)
qed

lemma end_parts_cleared:
  "end_parts end_all_notes recorded state = (None, state') \<Longrightarrow>
   performance_part_of (state i) = None \<or> i \<in> part_instrument ` set recorded \<Longrightarrow>
   performance_part_of (state' i) = None"
proof (induction recorded arbitrary: state)
  case Nil
  then show ?case by simp
next
  case (Cons part rest)
  obtain outcome ended where ended: "end_all_notes (state (part_instrument part)) = (outcome, ended)"
    by (cases "end_all_notes (state (part_instrument part))")
  with Cons.prems(1) have none: "outcome = None"
    by (cases outcome) (simp_all add: Let_def)
  let ?next = "state(part_instrument part := ended\<lparr> performance_part_of := None \<rparr>)"
  from Cons.prems(1) ended none have rest: "end_parts end_all_notes rest ?next = (None, state')"
    by (simp add: Let_def)
  from Cons.prems(2) have "performance_part_of (?next i) = None \<or> i \<in> part_instrument ` set rest"
    by auto
  with rest show ?case by (rule Cons.IH)
qed

lemma start_recording_started:
  assumes "start_recording self which_parts clock = (Inr (), started)"
  shows "recording_start_time started \<noteq> None"
    and "performance_made started =
      Some \<lparr> performance_number = performances_created self,
             parts = map (\<lambda>instrument. \<lparr> part_instrument = instrument,
                                         part_of_performance = performances_created self \<rparr>)
                       (case which_parts of None \<Rightarrow> ensemble_instruments self
                        | Some given \<Rightarrow> given) \<rparr>"
proof -
  let ?chosen = "case which_parts of None \<Rightarrow> ensemble_instruments self | Some given \<Rightarrow> given"
  let ?fresh = "\<lparr> performance_number = performances_created self, parts = [] \<rparr>"
  obtain perf state where loop:
    "set_performance_parts ?chosen ?fresh (instrument_state self) = (perf, state)"
    by (cases "set_performance_parts ?chosen ?fresh (instrument_state self)")
  from set_performance_parts_performance [of ?chosen ?fresh "instrument_state self"] loop
  have perf: "perf = \<lparr> performance_number = performances_created self,
             parts = map (\<lambda>instrument. \<lparr> part_instrument = instrument,
                                         part_of_performance = performances_created self \<rparr>)
                       ?chosen \<rparr>"
    by simp
  from assms loop show "recording_start_time started \<noteq> None"
    by (auto simp: start_recording_def Let_def split: option.splits if_splits clock_arg.splits)
  from assms loop perf show "performance_made started =
      Some \<lparr> performance_number = performances_created self,
             parts = map (\<lambda>instrument. \<lparr> part_instrument = instrument,
                                         part_of_performance = performances_created self \<rparr>)
                       ?chosen \<rparr>"
    by (auto simp: start_recording_def Let_def split: option.splits if_splits clock_arg.splits)
qed

lemma stop_recording_stopped:
  assumes "stop_recording end_all_notes self = (Inr perf, stopped)"
  shows "recording_start_time stopped = None"
    and "performance_made self = Some perf"
    and "\<forall>part \<in> set (parts perf).
           performance_part_of (instrument_state stopped (part_instrument part)) = None"
proof -
  from assms obtain made where made: "performance_made self = Some made"
    by (cases "performance_made self") (simp_all add: stop_recording_def)
  obtain outcome state where loop:
    "end_parts end_all_notes (parts made) (instrument_state self) = (outcome, state)"
    by (cases "end_parts end_all_notes (parts made) (instrument_state self)")
  from assms made loop have none: "outcome = None"
    by (cases outcome) (simp_all add: stop_recording_def)
  from assms made loop none have perf: "perf = made"
    and stopped: "stopped = self\<lparr> instrument_state := state, recording_start_time := None \<rparr>"
    by (simp_all add: stop_recording_def)
  from stopped show "recording_start_time stopped = None" by simp
  from made perf show "performance_made self = Some perf" by simp
  show "\<forall>part \<in> set (parts perf).
           performance_part_of (instrument_state stopped (part_instrument part)) = None"
  proof
    fix part
    assume "part \<in> set (parts perf)"
    with perf have "part_instrument part \<in> part_instrument ` set (parts made)" by simp
    with loop none have "performance_part_of (state (part_instrument part)) = None"
      using end_parts_cleared [of end_all_notes "parts made" "instrument_state self" state
          "part_instrument part"]
      by simp
    with stopped show "performance_part_of (instrument_state stopped (part_instrument part)) = None"
      by simp
  qed
qed

text \<open>
  C10. The recording lifecycle is consistent. After \<open>start_recording\<close> returns,
  \<open>is_recording()\<close> is true. After \<open>stop_recording\<close> returns, \<open>is_recording()\<close>
  is false and the instrument of every part of the returned performance has its
  performance part cleared. When \<open>stop_recording\<close> follows \<open>start_recording\<close>, it
  returns the performance that \<open>start_recording\<close> created: the one the playcorder holds
  after \<open>start_recording\<close>, created under a new number, with one part for each of the
  chosen instruments (the given ones, or the instruments of the ensemble).
\<close>

theorem recording_lifecycle:
  "(start_recording self which_parts clock = (Inr (), started) \<longrightarrow> is_recording started) \<and>
   (stop_recording end_all_notes recording = (Inr perf, stopped) \<longrightarrow>
      \<not> is_recording stopped \<and>
      (\<forall>part \<in> set (parts perf).
         performance_part_of (instrument_state stopped (part_instrument part)) = None)) \<and>
   (start_recording self which_parts clock = (Inr (), started) \<and>
    stop_recording end_all_notes started = (Inr returned, finished) \<longrightarrow>
      performance_made started = Some returned \<and>
      performance_number returned = performances_created self \<and>
      map part_instrument (parts returned) =
        (case which_parts of None \<Rightarrow> ensemble_instruments self | Some given \<Rightarrow> given))"
proof -
  have first: "is_recording started"
    if "start_recording self which_parts clock = (Inr (), started)"
    using start_recording_started(1) [OF that] by (simp add: is_recording_def)
  have second: "\<not> is_recording stopped \<and>
      (\<forall>part \<in> set (parts perf).
         performance_part_of (instrument_state stopped (part_instrument part)) = None)"
    if "stop_recording end_all_notes recording = (Inr perf, stopped)"
    using stop_recording_stopped(1,3) [OF that] by (simp add: is_recording_def)
  have third: "performance_made started = Some returned \<and>
      performance_number returned = performances_created self \<and>
      map part_instrument (parts returned) =
        (case which_parts of None \<Rightarrow> ensemble_instruments self | Some given \<Rightarrow> given)"
    if "start_recording self which_parts clock = (Inr (), started)"
      and "stop_recording end_all_notes started = (Inr returned, finished)"
  proof -
    from stop_recording_stopped(2) [OF that(2)] have same: "performance_made started = Some returned" .
    with start_recording_started(2) [OF that(1)] show ?thesis
      by (auto simp: comp_def)
  qed
  from first second third show ?thesis by blast
qed


theorem recording_lifecycle_witness:
  "is_recording (snd (start_recording duo None (ClockString ''absolute''))) \<and>
   performance_part_of
     (instrument_state (snd (start_recording duo None (ClockString ''absolute''))) 1) =
     Some \<lparr> part_instrument = 1, part_of_performance = 0 \<rparr> \<and>
   fst (stop_recording ends_notes (snd (start_recording duo None (ClockString ''absolute'')))) =
     Inr \<lparr> performance_number = 0,
           parts = [\<lparr> part_instrument = 0, part_of_performance = 0 \<rparr>,
                    \<lparr> part_instrument = 1, part_of_performance = 0 \<rparr>] \<rparr> \<and>
   \<not> is_recording
       (snd (stop_recording ends_notes (snd (start_recording duo None (ClockString ''absolute''))))) \<and>
   performance_part_of
     (instrument_state
        (snd (stop_recording ends_notes (snd (start_recording duo None (ClockString ''absolute'')))))
        1) = None"
proof -
  let ?started = "snd (start_recording duo None (ClockString ''absolute''))"
  let ?perf = "\<lparr> performance_number = 0,
                  parts = [\<lparr> part_instrument = 0, part_of_performance = 0 \<rparr>,
                           \<lparr> part_instrument = 1, part_of_performance = 0 \<rparr>] \<rparr>"
  let ?stopped = "snd (stop_recording ends_notes ?started)"
  have start: "start_recording duo None (ClockString ''absolute'') = (Inr (), ?started)"
    by (simp add: start_recording_def duo_def new_playcorder_def new_part_def Let_def
        prod_eq_iff split: prod.split)
  have made: "performance_made ?started = Some ?perf"
    by (simp add: start_recording_def duo_def new_playcorder_def new_part_def Let_def)
  have set_part: "performance_part_of (instrument_state ?started 1) =
      Some \<lparr> part_instrument = 1, part_of_performance = 0 \<rparr>"
    by (simp add: start_recording_def duo_def new_playcorder_def new_part_def Let_def)
  have returned: "fst (stop_recording ends_notes ?started) = Inr ?perf"
    by (simp add: stop_recording_def made ends_notes_def Let_def)
  then have stop: "stop_recording ends_notes ?started = (Inr ?perf, ?stopped)"
    by (simp add: prod_eq_iff)
  from recording_lifecycle [of duo None "ClockString ''absolute''" ?started ends_notes
      ?started ?perf ?stopped ?perf ?stopped] start stop set_part returned
  show ?thesis by simp
qed

end
